theory Spec2Isabelle
  imports Complex_Main
begin

section \<open>Numbers, vectors and errors\<close>

text \<open>
  The source computes with JavaScript numbers. The values of the signed distance fields,
  the positions and the colour blending are modelled over the reals (finite values, no
  rounding). Where a special value decides what the source does, the number is modelled
  over \<open>num\<close> below, which adds the special values of IEEE arithmetic to the reals: the
  level of detail of the fractal generator, whose recursion ends on \<open>lod < 1\<close>, and the
  pixel arithmetic of the renderer, which divides by a sum that can be zero and starts
  from \<open>Infinity\<close>.
\<close>

datatype error =
    TypeError       \<comment> \<open>\<open>reduce\<close> of an empty array with no initial value\<close>
  | InvalidPattern  \<comment> \<open>\<open>throw Error(`Invalid pattern ...`)\<close>\<close>
  | GetUndefined    \<comment> \<open>\<open>get\<close> on an index that holds no element\<close>

text \<open>
  A JavaScript number with its special values: a real, or one of \<open>Infinity\<close>,
  \<open>-Infinity\<close> and \<open>NaN\<close>. Finite results are exact (no rounding), and the sign of zero is
  not modelled: a zero divisor counts as \<open>+0\<close>, which is what a sum of alphas that are all
  zero gives.
\<close>

datatype num = Fin real | PInf | NInf | NaN

fun num_add :: "num \<Rightarrow> num \<Rightarrow> num" where
  "num_add NaN y = NaN"
| "num_add x NaN = NaN"
| "num_add (Fin a) (Fin b) = Fin (a + b)"
| "num_add PInf NInf = NaN"
| "num_add NInf PInf = NaN"
| "num_add PInf y = PInf"
| "num_add x PInf = PInf"
| "num_add NInf y = NInf"
| "num_add x NInf = NInf"

fun num_neg :: "num \<Rightarrow> num" where
  "num_neg (Fin a) = Fin (- a)"
| "num_neg PInf = NInf"
| "num_neg NInf = PInf"
| "num_neg NaN = NaN"

definition num_sub :: "num \<Rightarrow> num \<Rightarrow> num" where
  "num_sub x y = num_add x (num_neg y)"

fun num_mul :: "num \<Rightarrow> num \<Rightarrow> num" where
  "num_mul NaN y = NaN"
| "num_mul x NaN = NaN"
| "num_mul (Fin a) (Fin b) = Fin (a * b)"
| "num_mul (Fin a) PInf = (if a = 0 then NaN else if 0 < a then PInf else NInf)"
| "num_mul (Fin a) NInf = (if a = 0 then NaN else if 0 < a then NInf else PInf)"
| "num_mul PInf (Fin b) = (if b = 0 then NaN else if 0 < b then PInf else NInf)"
| "num_mul NInf (Fin b) = (if b = 0 then NaN else if 0 < b then NInf else PInf)"
| "num_mul PInf PInf = PInf"
| "num_mul PInf NInf = NInf"
| "num_mul NInf PInf = NInf"
| "num_mul NInf NInf = PInf"

fun num_div :: "num \<Rightarrow> num \<Rightarrow> num" where
  "num_div NaN y = NaN"
| "num_div x NaN = NaN"
| "num_div (Fin a) (Fin b) =
     (if b = 0 then (if a = 0 then NaN else if 0 < a then PInf else NInf) else Fin (a / b))"
| "num_div (Fin a) PInf = Fin 0"
| "num_div (Fin a) NInf = Fin 0"
| "num_div PInf (Fin b) = (if b < 0 then NInf else PInf)"
| "num_div NInf (Fin b) = (if b < 0 then PInf else NInf)"
| "num_div PInf PInf = NaN"
| "num_div PInf NInf = NaN"
| "num_div NInf PInf = NaN"
| "num_div NInf NInf = NaN"

fun num_le :: "num \<Rightarrow> num \<Rightarrow> bool" where
  "num_le NaN y = False"
| "num_le x NaN = False"
| "num_le (Fin a) (Fin b) = (a \<le> b)"
| "num_le NInf y = True"
| "num_le x PInf = True"
| "num_le PInf y = False"
| "num_le x NInf = False"

fun num_less :: "num \<Rightarrow> num \<Rightarrow> bool" where
  "num_less NaN y = False"
| "num_less x NaN = False"
| "num_less (Fin a) (Fin b) = (a < b)"
| "num_less NInf NInf = False"
| "num_less NInf y = True"
| "num_less PInf y = False"
| "num_less x PInf = True"
| "num_less x NInf = False"

fun num_sqrt :: "num \<Rightarrow> num" where
  "num_sqrt (Fin a) = (if a < 0 then NaN else Fin (sqrt a))"
| "num_sqrt PInf = PInf"
| "num_sqrt NInf = NaN"
| "num_sqrt NaN = NaN"

type_synonym vec2 = "real \<times> real"
type_synonym vec3 = "real \<times> real \<times> real"

text \<open>
  Modelled from the spec: the vector arithmetic of the package \<open>@peulicke/geometry\<close>
  (add, sub, scale, dot, length, normalize, component-wise abs and max) is an external
  collaborator of the repository; the definitions below are the standard ones.
\<close>

fun vec2_length :: "vec2 \<Rightarrow> real" where
  "vec2_length (x, y) = sqrt (x * x + y * y)"

fun vec2_add :: "vec2 \<Rightarrow> vec2 \<Rightarrow> vec2" where
  "vec2_add (a, b) (x, y) = (a + x, b + y)"

fun vec2_sub :: "vec2 \<Rightarrow> vec2 \<Rightarrow> vec2" where
  "vec2_sub (a, b) (x, y) = (a - x, b - y)"

fun vec2_scale :: "vec2 \<Rightarrow> real \<Rightarrow> vec2" where
  "vec2_scale (a, b) s = (a * s, b * s)"

fun vec3_add :: "vec3 \<Rightarrow> vec3 \<Rightarrow> vec3" where
  "vec3_add (a, b, c) (x, y, z) = (a + x, b + y, c + z)"

fun vec3_sub :: "vec3 \<Rightarrow> vec3 \<Rightarrow> vec3" where
  "vec3_sub (a, b, c) (x, y, z) = (a - x, b - y, c - z)"

fun vec3_scale :: "vec3 \<Rightarrow> real \<Rightarrow> vec3" where
  "vec3_scale (a, b, c) s = (a * s, b * s, c * s)"

fun vec3_multiply :: "vec3 \<Rightarrow> vec3 \<Rightarrow> vec3" where
  "vec3_multiply (a, b, c) (x, y, z) = (a * x, b * y, c * z)"

fun vec3_dot :: "vec3 \<Rightarrow> vec3 \<Rightarrow> real" where
  "vec3_dot (a, b, c) (x, y, z) = a * x + b * y + c * z"

fun vec3_length :: "vec3 \<Rightarrow> real" where
  "vec3_length (x, y, z) = sqrt (x * x + y * y + z * z)"

fun vec3_abs :: "vec3 \<Rightarrow> vec3" where
  "vec3_abs (x, y, z) = (\<bar>x\<bar>, \<bar>y\<bar>, \<bar>z\<bar>)"

fun vec3_max :: "vec3 \<Rightarrow> vec3 \<Rightarrow> vec3" where
  "vec3_max (a, b, c) (x, y, z) = (max a x, max b y, max c z)"

definition vec3_normalize :: "vec3 \<Rightarrow> vec3" where
  "vec3_normalize v = vec3_scale v (1 / vec3_length v)"

text \<open>
  \<open>Array.prototype.reduce\<close> called without an initial value: the first element starts
  the fold, and an empty array throws a \<open>TypeError\<close>.
\<close>

fun reduce :: "('a \<Rightarrow> 'a \<Rightarrow> 'a) \<Rightarrow> 'a list \<Rightarrow> error + 'a" where
  "reduce f [] = Inl TypeError"
| "reduce f (x # xs) = Inr (foldl f x xs)"

section \<open>Field core (field.ts)\<close>

type_synonym 'a field = "vec3 \<Rightarrow> 'a"

definition field_translate :: "vec3 \<Rightarrow> 'a field \<Rightarrow> 'a field" where
  "field_translate v field = (\<lambda>pos. field (vec3_sub pos v))"

text \<open>
  \<open>vec3.rotate\<close> belongs to the external geometry package; \<open>field_rotate\<close> takes it as its
  first argument \<open>vrot\<close> (position, axis, angle).
\<close>

definition field_rotate :: "(vec3 \<Rightarrow> vec3 \<Rightarrow> real \<Rightarrow> vec3) \<Rightarrow> vec3 \<Rightarrow> real \<Rightarrow> 'a field \<Rightarrow> 'a field" where
  "field_rotate vrot axis angle field = (\<lambda>pos. field (vrot pos axis (- angle)))"

section \<open>Signed distance fields (sdf.ts)\<close>

type_synonym Sdf = "real field"

definition smoothMin :: "real \<Rightarrow> real \<Rightarrow> real \<Rightarrow> real" where
  "smoothMin a b k = (let x = b - a in 0.5 * (a + b - sqrt (x * x + (2 * k)\<^sup>2)))"

definition unionPair :: "Sdf \<Rightarrow> Sdf \<Rightarrow> real \<Rightarrow> Sdf" where
  "unionPair a b k = (\<lambda>pos. smoothMin (a pos) (b pos) k)"

definition sdf_union :: "Sdf list \<Rightarrow> real \<Rightarrow> error + Sdf" where
  "sdf_union sdfArray k = reduce (\<lambda>s v. unionPair s v k) sdfArray"

definition intersectionPair :: "Sdf \<Rightarrow> Sdf \<Rightarrow> real \<Rightarrow> Sdf" where
  "intersectionPair a b k = (\<lambda>pos. - smoothMin (- a pos) (- b pos) k)"

definition sdf_intersection :: "Sdf list \<Rightarrow> real \<Rightarrow> error + Sdf" where
  "sdf_intersection sdfArray k = reduce (\<lambda>s v. intersectionPair s v k) sdfArray"

definition sdf_subtraction :: "Sdf \<Rightarrow> Sdf \<Rightarrow> real \<Rightarrow> Sdf" where
  "sdf_subtraction a b k = (\<lambda>pos. - smoothMin (- a pos) (b pos) k)"

definition sdf_scale :: "real \<Rightarrow> Sdf \<Rightarrow> Sdf" where
  "sdf_scale v sdf = (\<lambda>pos. sdf (vec3_scale pos (1 / v)) * v)"

definition createUnitSphere :: Sdf where
  "createUnitSphere = (\<lambda>pos. vec3_length pos - 1)"

definition createSphere :: "vec3 \<Rightarrow> real \<Rightarrow> Sdf" where
  "createSphere pos r = field_translate pos (sdf_scale r createUnitSphere)"

definition createBox :: "vec3 \<Rightarrow> real \<Rightarrow> Sdf" where
  "createBox r roundness = (\<lambda>p.
     let rSmall = vec3_sub r (roundness, roundness, roundness);
         q = vec3_sub (vec3_abs p) rSmall
     in vec3_length (vec3_max q (0, 0, 0))
        + min (max (fst q) (max (fst (snd q)) (snd (snd q)))) 0 - roundness)"

definition createCylinder :: "real \<Rightarrow> real \<Rightarrow> real \<Rightarrow> Sdf" where
  "createCylinder r h roundness = (\<lambda>pos.
     let d = (vec2_length (fst pos, snd (snd pos)) - r + roundness, \<bar>fst (snd pos)\<bar> - h / 2)
     in min (max (fst d) (snd d)) 0 + vec2_length (max (fst d) 0, max (snd d) 0) - roundness)"

text \<open>
  The formula the specification gives for the rounded cylinder ("rounded identically to
  the box"): both extents are shrunk by the roundness.
\<close>

definition cylinder_spec :: "real \<Rightarrow> real \<Rightarrow> real \<Rightarrow> Sdf" where
  "cylinder_spec r h \<rho> = (\<lambda>p.
     let d0 = vec2_length (fst p, snd (snd p)) - (r - \<rho>);
         d1 = \<bar>fst (snd p)\<bar> - (h / 2 - \<rho>)
     in min (max d0 d1) 0 + vec2_length (max d0 0, max d1 0) - \<rho>)"

subsection \<open>Sphere tracing\<close>

text \<open>
  \<open>trace_loop n\<close> is the \<open>for\<close> loop of \<open>trace\<close> with \<open>n\<close> iterations left; leaving the loop
  by \<open>break\<close> or by exhausting the counter returns the position, \<open>return undefined\<close>
  is \<open>None\<close>.
\<close>

definition maxIterations :: nat where
  "maxIterations = 1000"

definition minMovement :: real where
  "minMovement = 1 / 10000"

definition maxMovement :: real where
  "maxMovement = 10000"

fun trace_loop :: "nat \<Rightarrow> Sdf \<Rightarrow> vec3 \<Rightarrow> vec3 \<Rightarrow> vec3 option" where
  "trace_loop 0 sdf dir pos = Some pos"
| "trace_loop (Suc n) sdf dir pos =
     (let dist = sdf pos;
          vel = vec3_scale dir dist;
          pos' = vec3_add pos vel
      in if dist < minMovement then Some pos'
         else if dist > maxMovement then None
         else trace_loop n sdf dir pos')"

definition trace :: "Sdf \<Rightarrow> vec3 \<Rightarrow> vec3 \<Rightarrow> vec3 option" where
  "trace sdf startPos dir = trace_loop maxIterations sdf dir startPos"

text \<open>
  The specification's reading of the march: one iteration moves the position by
  \<open>direction * sdf(position)\<close>; the march stops at the first position whose distance is
  below the minimum or above the maximum movement.
\<close>

definition march :: "Sdf \<Rightarrow> vec3 \<Rightarrow> vec3 \<Rightarrow> vec3" where
  "march sdf dir pos = vec3_add pos (vec3_scale dir (sdf pos))"

definition stops :: "Sdf \<Rightarrow> vec3 \<Rightarrow> bool" where
  "stops sdf pos = (sdf pos < minMovement \<or> sdf pos > maxMovement)"

definition trace_spec :: "nat \<Rightarrow> Sdf \<Rightarrow> vec3 \<Rightarrow> vec3 \<Rightarrow> vec3 option" where
  "trace_spec n sdf dir start =
     (case find (\<lambda>k. stops sdf ((march sdf dir ^^ k) start)) [0..<n] of
        None \<Rightarrow> Some ((march sdf dir ^^ n) start)
      | Some k \<Rightarrow>
          if sdf ((march sdf dir ^^ k) start) < minMovement
          then Some ((march sdf dir ^^ Suc k) start) else None)"

subsection \<open>Fractal generator\<close>

text \<open>
  \<open>createFractal\<close> recurses once per copy and is evaluated eagerly, so it need not return:
  the first argument bounds the depth of nested calls, and \<open>None\<close> is the recursion that
  has not returned within that depth. \<open>mapCopies\<close> is the \<open>copies.map(...)\<close> of the source,
  applying each copy's transformation to the fractal returned for it. The level of detail
  and the copies' \<open>detailFrac\<close> are numbers with the special values: the comparison
  \<open>lod < 1\<close> is false at \<open>NaN\<close> and at \<open>Infinity\<close>.
\<close>

record Copy =
  transformation :: "Sdf \<Rightarrow> Sdf"
  detailFrac :: num

fun mapCopies :: "(Copy \<Rightarrow> (error + Sdf) option) \<Rightarrow> Copy list \<Rightarrow> (error + Sdf list) option" where
  "mapCopies rec [] = Some (Inr [])"
| "mapCopies rec (c # cs) =
     (case rec c of
        None \<Rightarrow> None
      | Some (Inl e) \<Rightarrow> Some (Inl e)
      | Some (Inr sub) \<Rightarrow>
          (case mapCopies rec cs of
             None \<Rightarrow> None
           | Some (Inl e) \<Rightarrow> Some (Inl e)
           | Some (Inr subs) \<Rightarrow> Some (Inr (transformation c sub # subs))))"

fun createFractal :: "nat \<Rightarrow> Copy list \<Rightarrow> Sdf \<Rightarrow> num \<Rightarrow> real \<Rightarrow> (error + Sdf) option" where
  "createFractal 0 copies model lod smoothness = None"
| "createFractal (Suc n) copies model lod smoothness =
     (if num_less lod (Fin 1) then Some (Inr model)
      else case mapCopies (\<lambda>c. createFractal n copies model (num_mul lod (detailFrac c)) smoothness)
                  copies of
             None \<Rightarrow> None
           | Some (Inl e) \<Rightarrow> Some (Inl e)
           | Some (Inr subs) \<Rightarrow> Some (sdf_union (model # subs) smoothness))"

section \<open>Models (model.ts)\<close>

text \<open>
  Modelled from the spec: \<open>getMinObj\<close>, \<open>get\<close> and \<open>sum\<close> belong to the external package
  \<open>@peulicke/algorithms\<close>, the "minimum by key" and "sum" helpers of the specification's
  external interfaces; their code is not part of the sources. \<open>getMinObj\<close> returns an element
  of minimal key. Its order on equal keys is taken from the behaviour of the package, not
  from the specification's sentence on ties (which names the first occurrence): the scan
  gives the running minimum up for every element whose key is not above it, so among the
  elements of equal minimal key the last one is returned. \<open>get\<close> reads an index and throws
  where the array has no element; \<open>sum\<close> is \<open>sum_list\<close>.
\<close>

record Model =
  sdf :: Sdf
  colorField :: "vec3 field"


definition get :: "'a list \<Rightarrow> int \<Rightarrow> error + 'a" where
  "get array i = (if 0 \<le> i \<and> i < int (length array) then Inr (array ! nat i) else Inl GetUndefined)"



section \<open>Renderer (render.ts)\<close>

subsection \<open>Pixel arithmetic\<close>

type_synonym nvec3 = "num \<times> num \<times> num"

fun nvec3_add :: "nvec3 \<Rightarrow> nvec3 \<Rightarrow> nvec3" where
  "nvec3_add (a, b, c) (x, y, z) = (num_add a x, num_add b y, num_add c z)"

fun nvec3_sub :: "nvec3 \<Rightarrow> nvec3 \<Rightarrow> nvec3" where
  "nvec3_sub (a, b, c) (x, y, z) = (num_sub a x, num_sub b y, num_sub c z)"

fun nvec3_scale :: "nvec3 \<Rightarrow> num \<Rightarrow> nvec3" where
  "nvec3_scale (a, b, c) s = (num_mul a s, num_mul b s, num_mul c s)"

fun nvec3_length :: "nvec3 \<Rightarrow> num" where
  "nvec3_length (x, y, z) = num_sqrt (num_add (num_add (num_mul x x) (num_mul y y)) (num_mul z z))"

fun nvec3_of :: "vec3 \<Rightarrow> nvec3" where
  "nvec3_of (x, y, z) = (Fin x, Fin y, Fin z)"

record Pixel =
  color :: nvec3
  alpha :: num

text \<open>
  Modelled from the spec: \<open>getTransparent\<close> of the external package \<open>@peulicke/image\<close> is
  the canonical transparent pixel, alpha 0; its colour is taken as black, as in the
  transparent pixel \<open>getShadowPixel\<close> writes out itself.
\<close>

definition getTransparent :: Pixel where
  "getTransparent = \<lparr>color = (Fin 0, Fin 0, Fin 0), alpha = Fin 0\<rparr>"

subsection \<open>Shading\<close>

record LightSource =
  light_dir :: "vec3 option"
  light_color :: vec3

definition getDerivative :: "Sdf \<Rightarrow> vec3 \<Rightarrow> vec3 \<Rightarrow> real" where
  "getDerivative f pos = (\<lambda>dim.
      let epsilon = 1 / 10 ^ 10;
          dimScaled = vec3_scale dim epsilon;
          plus = vec3_add pos dimScaled;
          minus = vec3_sub pos dimScaled;
          diff = f plus - f minus
      in diff / (2 * epsilon))"

definition getGradient :: "Sdf \<Rightarrow> vec3 \<Rightarrow> vec3" where
  "getGradient f pos =
     (let x = (1, 0, 0); y = (0, 1, 0); z = (0, 0, 1);
          getD = (\<lambda>dim. getDerivative f pos dim)
      in (getD x, getD y, getD z))"

definition getPixel :: "Model \<Rightarrow> vec3 \<Rightarrow> vec3 \<Rightarrow> LightSource list \<Rightarrow> Pixel" where
  "getPixel model startPos dir lightSources =
     (case trace (sdf model) startPos dir of
        None \<Rightarrow> getTransparent
      | Some pos \<Rightarrow>
          let normal = getGradient (sdf model) pos;
              color = foldl (\<lambda>color lightSource.
                  if (case light_dir lightSource of
                        None \<Rightarrow> False
                      | Some ldir \<Rightarrow>
                          trace (sdf model) (vec3_add pos (vec3_scale ldir (1 / 1000))) ldir \<noteq> None)
                  then color
                  else
                    let reflection = (case light_dir lightSource of
                                        None \<Rightarrow> 1
                                      | Some ldir \<Rightarrow> vec3_dot normal ldir)
                    in vec3_add color
                         (vec3_scale (vec3_multiply (colorField model pos) (light_color lightSource))
                            reflection))
                (0, 0, 0) lightSources
          in \<lparr>color = nvec3_of color, alpha = Fin 1\<rparr>)"

definition pixelCoordsToScreenCoords :: "vec2 \<Rightarrow> vec2 \<Rightarrow> vec2" where
  "pixelCoordsToScreenCoords resolution coords =
     vec2_scale (vec2_sub (vec2_add coords (0.5, 0.5)) (vec2_scale resolution 0.5))
       (1 / snd resolution)"

definition getMultisamplePattern1 :: "vec2 list" where
  "getMultisamplePattern1 = [(0, 0)]"

definition getMultisamplePattern8 :: "vec2 list" where
  "getMultisamplePattern8 =
     (let posArray = [(1, - 3), (- 1, 3), (5, 1), (- 3, - 5), (- 5, 5), (- 7, - 1), (3, 7), (7, - 7)]
      in map (\<lambda>pos. vec2_scale pos (1 / 16)) posArray)"

definition getMultisamplePattern :: "string \<Rightarrow> error + vec2 list" where
  "getMultisamplePattern pattern =
     (if pattern = ''1'' then Inr getMultisamplePattern1
      else if pattern = ''8'' then Inr getMultisamplePattern8
      else Inl InvalidPattern)"

definition avgPixel :: "Pixel list \<Rightarrow> Pixel" where
  "avgPixel pixels =
     (let (color, alpha) =
            foldl (\<lambda>(color, alpha) pixel.
                     (nvec3_add color (nvec3_scale (Pixel.color pixel) (Pixel.alpha pixel)),
                      num_add alpha (Pixel.alpha pixel)))
              ((Fin 0, Fin 0, Fin 0), Fin 0) pixels;
          color = nvec3_scale color (num_div (Fin 1) alpha);
          alpha = num_div alpha (Fin (real (length pixels)))
      in \<lparr>color = color, alpha = alpha\<rparr>)"

type_synonym RenderPixel = "Model \<Rightarrow> vec2 \<Rightarrow> LightSource list \<Rightarrow> Pixel"

definition perspectiveRenderPixel :: RenderPixel where
  "perspectiveRenderPixel model screenCoords lightSourcesNormalized =
     (let dir = vec3_normalize (fst screenCoords, - snd screenCoords, - 1)
      in getPixel model (0, 0, 0) dir lightSourcesNormalized)"

definition orthographicRenderPixel :: RenderPixel where
  "orthographicRenderPixel model screenCoords lightSourcesNormalized =
     getPixel model (fst screenCoords, - snd screenCoords, 0) (0, 0, - 1) lightSourcesNormalized"

subsection \<open>Grids\<close>

text \<open>
  Modelled from the spec: the grid container and the adjacency helpers of the external
  package \<open>@peulicke/geometry\<close>. A grid is a list of rows, a cell is addressed by
  (row, column); \<open>grid_create\<close> fills a grid of the resolution's shape from a generator of
  the cell position; \<open>grid_getCell\<close> is \<open>getCell\<close> with the default \<open>() => undefined\<close>
  (\<open>None\<close> outside the grid); \<open>grid_setCell\<close> overwrites a cell of the grid;
  \<open>grid_cells\<close> enumerates the cells with their positions, as \<open>grid.map\<close> visits them;
  \<open>gridNeighbors\<close> lists the 8 neighbours of a cell and \<open>gridEdges\<close> its 4 edge-adjacent
  neighbours, each with its position \<open>p\<close> and its offset \<open>n\<close>.
\<close>

type_synonym cellpos = "int \<times> int"
type_synonym 'a grid = "'a list list"

definition grid_create :: "nat \<times> nat \<Rightarrow> (cellpos \<Rightarrow> 'a) \<Rightarrow> 'a grid" where
  "grid_create resolution f =
     map (\<lambda>i. map (\<lambda>j. f (int i, int j)) [0..<snd resolution]) [0..<fst resolution]"

definition grid_getCell :: "'a grid \<Rightarrow> cellpos \<Rightarrow> 'a option" where
  "grid_getCell g p =
     (if 0 \<le> fst p \<and> fst p < int (length g) \<and> 0 \<le> snd p \<and> snd p < int (length (g ! nat (fst p)))
      then Some (g ! nat (fst p) ! nat (snd p)) else None)"

definition grid_setCell :: "'a grid \<Rightarrow> cellpos \<Rightarrow> 'a \<Rightarrow> 'a grid" where
  "grid_setCell g p v =
     (if 0 \<le> fst p \<and> fst p < int (length g) \<and> 0 \<le> snd p \<and> snd p < int (length (g ! nat (fst p)))
      then g[nat (fst p) := (g ! nat (fst p))[nat (snd p) := v]] else g)"

definition grid_cells :: "'a grid \<Rightarrow> (cellpos \<times> 'a) list" where
  "grid_cells g =
     concat (map (\<lambda>i. map (\<lambda>j. ((int i, int j), g ! i ! j)) [0..<length (g ! i)]) [0..<length g])"

definition gridNeighbors :: "cellpos \<Rightarrow> (cellpos \<times> cellpos) list" where
  "gridNeighbors pos =
     map (\<lambda>n. ((fst pos + fst n, snd pos + snd n), n))
       [(- 1, - 1), (- 1, 0), (- 1, 1), (0, - 1), (0, 1), (1, - 1), (1, 0), (1, 1)]"

definition gridEdges :: "cellpos \<Rightarrow> (cellpos \<times> cellpos) list" where
  "gridEdges pos =
     map (\<lambda>n. ((fst pos + fst n, snd pos + snd n), n)) [(- 1, 0), (1, 0), (0, - 1), (0, 1)]"

definition vec2_of :: "cellpos \<Rightarrow> vec2" where
  "vec2_of p = (real_of_int (fst p), real_of_int (snd p))"

subsection \<open>Full image\<close>

definition normalizeLights :: "LightSource list \<Rightarrow> LightSource list" where
  "normalizeLights lightSources =
     map (\<lambda>ls. ls\<lparr>light_dir := map_option vec3_normalize (light_dir ls)\<rparr>) lightSources"

definition posToPixel ::
  "RenderPixel \<Rightarrow> Model \<Rightarrow> LightSource list \<Rightarrow> nat \<times> nat \<Rightarrow> vec2 list \<Rightarrow> cellpos \<Rightarrow> Pixel" where
  "posToPixel renderPixel model lightSourcesNormalized resolution offsets pos =
     (let getCoords = pixelCoordsToScreenCoords (real (fst resolution), real (snd resolution))
      in avgPixel (map (\<lambda>offset. renderPixel model (getCoords (vec2_add (vec2_of pos) offset))
                                  lightSourcesNormalized) offsets))"

definition renderImage ::
  "RenderPixel \<Rightarrow> Model \<Rightarrow> LightSource list \<Rightarrow> nat \<times> nat \<Rightarrow> string \<Rightarrow> error + Pixel grid" where
  "renderImage renderPixel model lightSources resolution pattern =
     (let lightSourcesNormalized = normalizeLights lightSources
      in case getMultisamplePattern pattern of
           Inl e \<Rightarrow> Inl e
         | Inr offsets \<Rightarrow>
             Inr (grid_create resolution
                    (posToPixel renderPixel model lightSourcesNormalized resolution offsets)))"

subsection \<open>Progressive image\<close>

record DistCell =
  cell_pixel :: Pixel
  cell_dist :: num

record QueueEntry =
  q_pixel :: Pixel
  q_pos :: cellpos
  q_dist :: num

text \<open>
  \<open>relaxNeighbors\<close> is the \<open>forEach\<close> over the neighbours of the overwritten cell: the
  entries it pushes. \<open>cell\<close> is the record the cell held before it was overwritten.
  \<open>updateDists_loop\<close> is the \<open>while (queue.length > 0)\<close> loop of \<open>updateDists\<close>; its first
  argument bounds the number of iterations, and \<open>None\<close> is the loop that has not emptied
  the queue within the bound.
\<close>

definition relaxNeighbors :: "DistCell grid \<Rightarrow> DistCell \<Rightarrow> QueueEntry \<Rightarrow> QueueEntry list" where
  "relaxNeighbors dists cell next =
     concat (map (\<lambda>(p, n).
               case grid_getCell dists p of
                 None \<Rightarrow> []
               | Some c \<Rightarrow>
                   let d = num_add (q_dist next) (Fin (vec2_length (vec2_of n)))
                   in if num_le (cell_dist cell) d then []
                      else [\<lparr>q_pixel = q_pixel next, q_pos = p, q_dist = d\<rparr>])
             (gridNeighbors (q_pos next)))"

fun updateDists_loop :: "nat \<Rightarrow> QueueEntry list \<Rightarrow> DistCell grid \<Rightarrow> DistCell grid option" where
  "updateDists_loop fuel [] dists = Some dists"
| "updateDists_loop 0 (next # queue) dists = None"
| "updateDists_loop (Suc fuel) (next # queue) dists =
     (case grid_getCell dists (q_pos next) of
        None \<Rightarrow> updateDists_loop fuel queue dists
      | Some cell \<Rightarrow>
          if num_le (cell_dist cell) (q_dist next) then updateDists_loop fuel queue dists
          else
            let dists' = grid_setCell dists (q_pos next)
                           \<lparr>cell_pixel = q_pixel next, cell_dist = q_dist next\<rparr>
            in updateDists_loop fuel (queue @ relaxNeighbors dists' cell next) dists')"

definition updateDists :: "nat \<Rightarrow> DistCell grid \<Rightarrow> Pixel \<Rightarrow> cellpos \<Rightarrow> DistCell grid option" where
  "updateDists fuel dists pixel pos =
     updateDists_loop fuel [\<lparr>q_pixel = pixel, q_pos = pos, q_dist = Fin 0\<rparr>] dists"

text \<open>\<open>array.splice(start, 1)\<close>: the removed element, if any, and the array left.\<close>

definition splice1 :: "'a list \<Rightarrow> int \<Rightarrow> 'a option \<times> 'a list" where
  "splice1 array start =
     (let len = int (length array);
          s = (if start < 0 then max (len + start) 0 else min start len)
      in if s < len then (Some (array ! nat s), take (nat s) array @ drop (Suc (nat s)) array)
         else (None, array))"

text \<open>
  The \<open>indices.forEach\<close> of \<open>popMax\<close>, carrying \<open>maxScore\<close> and \<open>maxIndex\<close>; an exception of
  \<open>get\<close> or of \<open>getScore\<close> ends it.
\<close>

fun popMax_scan ::
  "'a list \<Rightarrow> ('a \<Rightarrow> error + num) \<Rightarrow> int list \<Rightarrow> num \<times> int \<Rightarrow> error + num \<times> int" where
  "popMax_scan array getScore [] best = Inr best"
| "popMax_scan array getScore (i # indices) (maxScore, maxIndex) =
     (case get array i of
        Inl e \<Rightarrow> Inl e
      | Inr obj \<Rightarrow>
          (case getScore obj of
             Inl e \<Rightarrow> Inl e
           | Inr score \<Rightarrow>
               if num_le score maxScore then popMax_scan array getScore indices (maxScore, maxIndex)
               else popMax_scan array getScore indices (score, i)))"

text \<open>
  Modelled from the spec: \<open>randomInt(random)(0, array.length - 1)\<close> of the external package
  \<open>@peulicke/algorithms\<close> draws an integer of that range from the caller's random source.
  The \<open>sampleCount\<close> draws of one call of \<open>popMax\<close> are its argument \<open>indices\<close>.
\<close>

definition popMax ::
  "'a list \<Rightarrow> ('a \<Rightarrow> error + num) \<Rightarrow> int list \<Rightarrow> error + 'a option \<times> 'a list" where
  "popMax array getScore indices =
     (if length array = 0 then Inr (None, array)
      else case popMax_scan array getScore indices (NInf, - 1) of
             Inl e \<Rightarrow> Inl e
           | Inr (maxScore, maxIndex) \<Rightarrow> Inr (splice1 array maxIndex))"

record RenderState =
  pixels :: "Pixel grid"
  posArray :: "cellpos list"
  distToNearestRenderedPixel :: "DistCell grid"

definition getColorDiff :: "DistCell grid \<Rightarrow> cellpos \<Rightarrow> error + num" where
  "getColorDiff dists pos =
     (let edges = gridEdges pos;
          colors = map (\<lambda>c. color (cell_pixel c))
                     (List.map_filter (\<lambda>(p, n). grid_getCell dists p) edges)
      in case reduce nvec3_add colors of
           Inl e \<Rightarrow> Inl e
         | Inr colorSum \<Rightarrow>
             let colorAvg = nvec3_scale colorSum (num_div (Fin 1) (Fin (real (length colors))));
                 diff = nvec3_sub colorAvg
                          (case grid_getCell dists pos of
                             Some c \<Rightarrow> color (cell_pixel c)
                           | None \<Rightarrow> color getTransparent)
             in Inr (nvec3_length diff))"

definition getScore :: "DistCell grid \<Rightarrow> cellpos \<Rightarrow> error + num" where
  "getScore dists obj =
     (let distScore = (case grid_getCell dists obj of Some c \<Rightarrow> cell_dist c | None \<Rightarrow> PInf)
      in case getColorDiff dists obj of
           Inl e \<Rightarrow> Inl e
         | Inr colorScore \<Rightarrow> Inr (num_add distScore (num_mul (Fin 32) colorScore)))"

text \<open>
  One call of \<open>step\<close>: \<open>toPixel\<close> is the closure \<open>posToPixel\<close>, \<open>fuel\<close> bounds the loop of
  \<open>updateDists\<close>, \<open>indices\<close> are the 32 draws of \<open>popMax\<close>. The result is the thrown error, or
  the returned boolean with the state after the call.
\<close>

definition step ::
  "(cellpos \<Rightarrow> Pixel) \<Rightarrow> nat \<Rightarrow> int list \<Rightarrow> RenderState \<Rightarrow> (error + bool \<times> RenderState) option" where
  "step toPixel fuel indices st =
     (case popMax (posArray st) (getScore (distToNearestRenderedPixel st)) indices of
        Inl e \<Rightarrow> Some (Inl e)
      | Inr (None, posArray') \<Rightarrow> Some (Inr (False, st\<lparr>posArray := posArray'\<rparr>))
      | Inr (Some pos, posArray') \<Rightarrow>
          (case updateDists fuel (distToNearestRenderedPixel st) (toPixel pos) pos of
             None \<Rightarrow> None
           | Some dists' \<Rightarrow>
               Some (Inr (True,
                 \<lparr>pixels = foldl (\<lambda>px (p, c). grid_setCell px p (cell_pixel c)) (pixels st)
                             (grid_cells dists'),
                  posArray = posArray',
                  distToNearestRenderedPixel = dists'\<rparr>))))"

definition renderPartialImage ::
  "RenderPixel \<Rightarrow> Model \<Rightarrow> LightSource list \<Rightarrow> nat \<times> nat \<Rightarrow> string
     \<Rightarrow> error + RenderState \<times> (cellpos \<Rightarrow> Pixel)" where
  "renderPartialImage renderPixel model lightSources resolution pattern =
     (let lightSourcesNormalized = normalizeLights lightSources
      in case getMultisamplePattern pattern of
           Inl e \<Rightarrow> Inl e
         | Inr offsets \<Rightarrow>
             let pixels = grid_create resolution (\<lambda>p. getTransparent);
                 posArray = concat (map (\<lambda>i. map (\<lambda>j. (int i, int j)) [0..<length (pixels ! i)])
                                     [0..<length pixels]);
                 distToNearestRenderedPixel =
                   grid_create resolution (\<lambda>p. \<lparr>cell_pixel = getTransparent, cell_dist = PInf\<rparr>)
             in Inr (\<lparr>pixels = pixels, posArray = posArray,
                      distToNearestRenderedPixel = distToNearestRenderedPixel\<rparr>,
                     posToPixel renderPixel model lightSourcesNormalized resolution offsets))"

text \<open>A colour channel that is zero or already \<open>NaN\<close>: what a sum of colours weighted by alpha 0 is.\<close>

fun zeroOrNaN :: "num \<Rightarrow> bool" where
  "zeroOrNaN (Fin a) = (a = 0)"
| "zeroOrNaN NaN = True"
| "zeroOrNaN PInf = False"
| "zeroOrNaN NInf = False"

subsection \<open>Example inputs\<close>

text \<open>
  Two opaque pixels of different colours, and a \<open>RenderPixel\<close> a caller may pass to
  \<open>renderPartialImage\<close>: it colours a sample by the second screen coordinate.
\<close>

definition pixelA :: Pixel where
  "pixelA = \<lparr>color = (Fin 1, Fin 0, Fin 0), alpha = Fin 1\<rparr>"

definition pixelB :: Pixel where
  "pixelB = \<lparr>color = (Fin 0, Fin 1, Fin 0), alpha = Fin 1\<rparr>"

definition stripes :: RenderPixel where
  "stripes model screenCoords lightSourcesNormalized =
     \<lparr>color = (Fin (snd screenCoords), Fin 0, Fin 0), alpha = Fin 1\<rparr>"

section \<open>Verified properties\<close>

subsection \<open>Smooth minimum and the hard operators\<close>

lemma smoothMin_zero: "smoothMin a b 0 = min a b"
proof -
  have "sqrt ((b - a) * (b - a)) = \<bar>b - a\<bar>"
    by (simp add: power2_eq_square [symmetric])
  then show ?thesis
    by (simp add: smoothMin_def Let_def min_def)
qed

text \<open>
  C6. With blend radius 0 the smooth minimum is the minimum, so the union of two fields
  is their pointwise minimum and the intersection their pointwise maximum.
\<close>

theorem hard_csg_exact:
  "smoothMin a b 0 = min a b
   \<and> (\<exists>u. sdf_union [f, g] 0 = Inr u \<and> u p = min (f p) (g p))
   \<and> (\<exists>i. sdf_intersection [f, g] 0 = Inr i \<and> i p = max (f p) (g p))"
  by (simp add: sdf_union_def sdf_intersection_def unionPair_def intersectionPair_def
      smoothMin_zero max_def min_def)

subsection \<open>Sphere tracing, scaling, field transformations, cylinder\<close>

lemma find_map_option: "find P (map f xs) = map_option f (find (\<lambda>x. P (f x)) xs)"
  by (induction xs) simp_all

lemma find_upt_Suc:
  "find P [0..<Suc n] = (if P 0 then Some 0 else map_option Suc (find (\<lambda>k. P (Suc k)) [0..<n]))"
proof -
  have "[0..<Suc n] = 0 # map Suc [0..<n]"
    by (simp add: upt_conv_Cons map_Suc_upt del: upt_Suc)
  then show ?thesis
    by (simp add: find_map_option del: upt_Suc)
qed

lemma trace_loop_spec: "trace_loop n d dir pos = trace_spec n d dir pos"
proof (induction n arbitrary: pos)
  case 0
  show ?case by (simp add: trace_spec_def)
next
  case (Suc n)
  have shift: "\<And>k. (march d dir ^^ Suc k) pos = (march d dir ^^ k) (march d dir pos)"
    by (simp add: funpow_swap1)
  show ?case
  proof (cases "stops d pos")
    case True
    then show ?thesis
      unfolding trace_spec_def find_upt_Suc
      by (auto simp: stops_def march_def Let_def minMovement_def maxMovement_def)
  next
    case False
    then have "trace_loop (Suc n) d dir pos = trace_loop n d dir (march d dir pos)"
      by (simp add: stops_def march_def Let_def)
    also have "\<dots> = trace_spec n d dir (march d dir pos)"
      by (rule Suc.IH)
    also have "\<dots> = trace_spec (Suc n) d dir pos"
      unfolding trace_spec_def find_upt_Suc using False
      by (simp add: shift option.case_eq_if option.map_sel del: funpow.simps)
    finally show ?thesis .
  qed
qed

text \<open>
  C3. \<open>trace\<close> looks at the first 1000 positions of the march only. At the first of them
  whose distance is below \<open>1e-4\<close> it returns the position after that step's advance (a hit),
  at the first whose distance is above \<open>1e4\<close> it returns no intersection, and when none of
  the 1000 stops the march it returns the position reached after 1000 advances.
\<close>

theorem trace_policy:
  "trace d startPos dir =
     (case find (\<lambda>k. d ((march d dir ^^ k) startPos) < 1 / 10000
                     \<or> d ((march d dir ^^ k) startPos) > 10000) [0..<1000] of
        None \<Rightarrow> Some ((march d dir ^^ 1000) startPos)
      | Some k \<Rightarrow>
          if d ((march d dir ^^ k) startPos) < 1 / 10000
          then Some ((march d dir ^^ Suc k) startPos) else None)"
  unfolding trace_def trace_loop_spec trace_spec_def maxIterations_def stops_def
    minMovement_def maxMovement_def ..

text \<open>A ray from \<open>(0, 0, 5)\<close> towards the unit sphere at the origin hits it at \<open>(0, 0, 1)\<close>.\<close>

lemma trace_sphere_example:
  "trace (createSphere (0, 0, 0) 1) (0, 0, 5) (0, 0, - 1) = Some (0, 0, 1)"
  by (simp add: trace_def maxIterations_def eval_nat_numeral Let_def minMovement_def
      maxMovement_def createSphere_def field_translate_def sdf_scale_def createUnitSphere_def)

text \<open>
  C8. Scaling a distance field by \<open>v \<noteq> 0\<close> samples it at \<open>p / v\<close> and multiplies the
  distance by \<open>v\<close>; hence the sphere of radius \<open>r > 0\<close> about \<open>c\<close> has distance
  \<open>|p - c| - r\<close>.
\<close>

theorem sdf_scale_sphere:
  "(v \<noteq> 0 \<longrightarrow> sdf_scale v f (x, y, z) = v * f (x / v, y / v, z / v))
   \<and> (0 < r \<longrightarrow> createSphere c r p = vec3_length (vec3_sub p c) - r)"
proof (intro conjI impI)
  show "sdf_scale v f (x, y, z) = v * f (x / v, y / v, z / v)"
    by (simp add: sdf_scale_def)
next
  assume r: "0 < r"
  obtain a b d where q: "vec3_sub p c = (a, b, d)"
    by (cases "vec3_sub p c")
  have "a * (1 / r) * (a * (1 / r)) + b * (1 / r) * (b * (1 / r)) + d * (1 / r) * (d * (1 / r))
        = (a * a + b * b + d * d) / (r * r)"
    by (simp add: add_divide_distrib)
  then have "sqrt (a * (1 / r) * (a * (1 / r)) + b * (1 / r) * (b * (1 / r)) + d * (1 / r) * (d * (1 / r)))
        = sqrt (a * a + b * b + d * d) / r"
    using r by (simp add: real_sqrt_divide)
  then show "createSphere c r p = vec3_length (vec3_sub p c) - r"
    using r by (simp add: createSphere_def field_translate_def sdf_scale_def createUnitSphere_def q
        field_simps)
qed

theorem sdf_scale_sphere_witness:
  "(2::real) \<noteq> 0 \<and> sdf_scale 2 (\<lambda>p. fst p) (4, 0, 0) = 4
   \<and> (0::real) < 2 \<and> createSphere (0, 0, 0) 2 (4, 0, 0) = 2"
  using sdf_scale_sphere [of 2 "\<lambda>p. fst p" 4 0 0 2 "(0, 0, 0)" "(4, 0, 0)"]
  by simp

text \<open>
  C9. A translated field sampled at \<open>p\<close> is the original field at \<open>p - v\<close>; a rotated field
  sampled at \<open>p\<close> is the original field at \<open>p\<close> rotated by the negated angle about the axis.
\<close>

theorem field_transformations_exact:
  "field_translate v field p = field (vec3_sub p v)
   \<and> field_rotate vrot axis angle field p = field (vrot p axis (- angle))"
  by (simp add: field_translate_def field_rotate_def)

text \<open>
  C4. At \<open>r = 2\<close>, \<open>h = 4\<close>, roundness \<open>1\<close> the on-axis point \<open>(0, h/2, 0)\<close> has distance \<open>-1\<close>
  under \<open>createCylinder\<close>, while the formula that shrinks the half-height by the roundness
  puts it on the surface (distance \<open>0\<close>).
\<close>

theorem createCylinder_top_not_on_surface:
  "createCylinder 2 4 1 (0, 2, 0) = - 1 \<and> cylinder_spec 2 4 1 (0, 2, 0) = 0"
  by (simp add: createCylinder_def cylinder_spec_def)

text \<open>The same holds at every roundness between 0 and the radius: the top point is inside by the roundness.\<close>

lemma createCylinder_top_general:
  assumes "0 < \<rho>" and "\<rho> < r" and "0 \<le> h"
  shows "createCylinder r h \<rho> (0, h / 2, 0) = - \<rho>"
  using assms by (simp add: createCylinder_def Let_def)

subsection \<open>Fractal generator\<close>

lemma mapCopies_all_Some:
  "(\<And>c. c \<in> set cs \<Longrightarrow> \<exists>f. rec c = Some (Inr f)) \<Longrightarrow>
   \<exists>subs. list_all2 (\<lambda>c f. rec c = Some (Inr f)) cs subs
        \<and> mapCopies rec cs = Some (Inr (map2 (\<lambda>c f. transformation c f) cs subs))"
proof (induction cs)
  case Nil
  show ?case by simp
next
  case (Cons c cs)
  from Cons.prems obtain f where f: "rec c = Some (Inr f)"
    by auto
  from Cons.IH Cons.prems obtain subs where
    subs: "list_all2 (\<lambda>c f. rec c = Some (Inr f)) cs subs"
      "mapCopies rec cs = Some (Inr (map2 (\<lambda>c f. transformation c f) cs subs))"
    by auto
  have "list_all2 (\<lambda>c f. rec c = Some (Inr f)) (c # cs) (f # subs)"
    using f subs(1) by simp
  moreover have "mapCopies rec (c # cs)
      = Some (Inr (map2 (\<lambda>c f. transformation c f) (c # cs) (f # subs)))"
    using f subs(2) by simp
  ultimately show ?case by blast
qed

lemma sdf_union_fold:
  "sdf_union (model # fs) s =
     Inr (\<lambda>p. foldl (\<lambda>acc f. 0.5 * (acc + f p - sqrt ((f p - acc) * (f p - acc) + (2 * s)\<^sup>2)))
              (model p) fs)"
proof -
  have "foldl (\<lambda>a v. unionPair a v s) m fs
        = (\<lambda>p. foldl (\<lambda>acc f. 0.5 * (acc + f p - sqrt ((f p - acc) * (f p - acc) + (2 * s)\<^sup>2)))
                 (m p) fs)" for m
    by (induction fs arbitrary: m) (simp_all add: unionPair_def smoothMin_def Let_def)
  then show ?thesis
    by (simp add: sdf_union_def)
qed

lemma createFractal_total:
  assumes m: "0 < m" "m < 1"
    and le: "\<And>c. c \<in> set copies \<Longrightarrow> detailFrac c = NInf \<or> (\<exists>d. detailFrac c = Fin d \<and> d \<le> m)"
  shows "l * m ^ k < 1 \<Longrightarrow> k < n \<Longrightarrow> \<exists>f. createFractal n copies model (Fin l) s = Some (Inr f)"
proof (induction k arbitrary: l n)
  case 0
  then obtain n' where "n = Suc n'" by (cases n) auto
  with 0 show ?case by simp
next
  case (Suc k)
  then obtain n' where n: "n = Suc n'" "k < n'" by (cases n) auto
  then obtain n'' where n': "n' = Suc n''" by (cases n') auto
  show ?case
  proof (cases "l < 1")
    case True
    then show ?thesis by (simp add: n)
  next
    case False
    have sub: "\<exists>f. createFractal n' copies model (num_mul (Fin l) (detailFrac c)) s = Some (Inr f)"
      if c: "c \<in> set copies" for c
    proof -
      from le [OF c] show ?thesis
      proof
        assume "detailFrac c = NInf"
        with False show ?thesis by (simp add: n')
      next
        assume "\<exists>d. detailFrac c = Fin d \<and> d \<le> m"
        then obtain d where d: "detailFrac c = Fin d" "d \<le> m" by blast
        have "l * d \<le> l * m"
          using False d(2) by (simp add: mult_left_mono)
        then have "l * d * m ^ k \<le> l * m * m ^ k"
          using m by (simp add: mult_right_mono)
        also have "\<dots> < 1"
          using Suc.prems(1) by (simp add: mult.assoc)
        finally have "l * d * m ^ k < 1" .
        from Suc.IH [OF this n(2)] show ?thesis by (simp add: d(1))
      qed
    qed
    from mapCopies_all_Some
      [of copies "\<lambda>c. createFractal n' copies model (num_mul (Fin l) (detailFrac c)) s", OF sub]
    obtain subs where
      "mapCopies (\<lambda>c. createFractal n' copies model (num_mul (Fin l) (detailFrac c)) s) copies
        = Some (Inr (map2 (\<lambda>c f. transformation c f) copies subs))"
      by blast
    then show ?thesis
      using False by (simp add: n(1) sdf_union_def)
  qed
qed

lemma detailFrac_bound:
  "list_all (\<lambda>c. num_less (detailFrac c) (Fin 1)) copies \<Longrightarrow>
     \<exists>m. 0 < m \<and> m < 1
        \<and> (\<forall>c\<in>set copies. detailFrac c = NInf \<or> (\<exists>d. detailFrac c = Fin d \<and> d \<le> m))"
proof (induction copies)
  case Nil
  show ?case by (intro exI [of _ "1 / 2"]) simp
next
  case (Cons c cs)
  then obtain m where m: "0 < m" "m < 1"
    and rest: "\<forall>c\<in>set cs. detailFrac c = NInf \<or> (\<exists>d. detailFrac c = Fin d \<and> d \<le> m)"
    by auto
  from Cons.prems have c: "num_less (detailFrac c) (Fin 1)" by simp
  show ?case
  proof (cases "detailFrac c")
    case (Fin d)
    with c have d: "d < 1" by simp
    have "\<forall>c'\<in>set (c # cs). detailFrac c' = NInf \<or> (\<exists>d'. detailFrac c' = Fin d' \<and> d' \<le> max m d)"
      using rest Fin by (auto simp: max_def)
    moreover have "0 < max m d" "max m d < 1" using m d by auto
    ultimately show ?thesis by blast
  next
    case NInf
    with rest have "\<forall>c'\<in>set (c # cs). detailFrac c' = NInf \<or> (\<exists>d'. detailFrac c' = Fin d' \<and> d' \<le> m)"
      by auto
    with m show ?thesis by blast
  next
    case PInf
    with c show ?thesis by simp
  next
    case NaN
    with c show ?thesis by simp
  qed
qed

text \<open>
  C7. With \<open>lod < 1\<close> the fractal is the model itself. Otherwise, when \<open>lod\<close> is a finite
  number and every copy has \<open>detailFrac < 1\<close>, the recursion returns at every sufficient
  depth, and the result is the left fold of the smooth minimum
  \<open>0.5 * (a + b - sqrt ((b - a)^2 + (2 * smoothness)^2))\<close> over the model followed by each
  copy's transformation applied to the fractal of the same model at \<open>lod * detailFrac\<close>,
  in list order.
\<close>

theorem createFractal_unfold:
  "(num_less lod (Fin 1) \<longrightarrow> createFractal (Suc n) copies model lod s = Some (Inr model))
   \<and> (list_all (\<lambda>c. num_less (detailFrac c) (Fin 1)) copies \<and> lod = Fin l \<and> \<not> l < 1 \<longrightarrow>
        (\<exists>N. \<forall>n\<ge>N. \<exists>subs.
           list_all2
             (\<lambda>c f. createFractal n copies model (num_mul lod (detailFrac c)) s = Some (Inr f))
             copies subs
           \<and> createFractal (Suc n) copies model lod s =
               Some (Inr (\<lambda>p. foldl
                   (\<lambda>acc f. 0.5 * (acc + f p - sqrt ((f p - acc) * (f p - acc) + (2 * s)\<^sup>2)))
                   (model p) (map2 (\<lambda>c f. transformation c f) copies subs)))))"
proof (intro conjI impI)
  assume "num_less lod (Fin 1)"
  then show "createFractal (Suc n) copies model lod s = Some (Inr model)" by simp
next
  assume a: "list_all (\<lambda>c. num_less (detailFrac c) (Fin 1)) copies \<and> lod = Fin l \<and> \<not> l < 1"
  then obtain m where m: "0 < m" "m < 1"
    and le: "\<And>c. c \<in> set copies \<Longrightarrow> detailFrac c = NInf \<or> (\<exists>d. detailFrac c = Fin d \<and> d \<le> m)"
    using detailFrac_bound [of copies] by blast
  from a have lod: "lod = Fin l" and l: "1 \<le> l" by simp_all
  have "\<exists>K. m ^ K < 1 / l"
    using m l by (intro real_arch_pow_inv) simp_all
  then obtain K where "m ^ K < 1 / l" ..
  then have K: "l * m ^ K < 1"
    using l by (simp add: field_simps)
  show "\<exists>N. \<forall>n\<ge>N. \<exists>subs.
           list_all2
             (\<lambda>c f. createFractal n copies model (num_mul lod (detailFrac c)) s = Some (Inr f))
             copies subs
           \<and> createFractal (Suc n) copies model lod s =
               Some (Inr (\<lambda>p. foldl
                   (\<lambda>acc f. 0.5 * (acc + f p - sqrt ((f p - acc) * (f p - acc) + (2 * s)\<^sup>2)))
                   (model p) (map2 (\<lambda>c f. transformation c f) copies subs)))"
  proof (intro exI [of _ "Suc K"] allI impI)
    fix n assume n: "Suc K \<le> n"
    then obtain n' where n': "n = Suc n'" by (cases n) auto
    have sub: "\<exists>f. createFractal n copies model (num_mul lod (detailFrac c)) s = Some (Inr f)"
      if c: "c \<in> set copies" for c
    proof -
      from le [OF c] show ?thesis
      proof
        assume "detailFrac c = NInf"
        with l show ?thesis by (simp add: lod n')
      next
        assume "\<exists>d. detailFrac c = Fin d \<and> d \<le> m"
        then obtain d where d: "detailFrac c = Fin d" "d \<le> m" by blast
        have "l * d \<le> l * m"
          using l d(2) by (simp add: mult_left_mono)
        also have "\<dots> \<le> l" using l m by simp
        finally have "l * d * m ^ K \<le> l * m ^ K"
          using m by (simp add: mult_right_mono)
        with K have lt: "l * d * m ^ K < 1" by simp
        have kn: "K < n" using n by simp
        have "\<exists>f. createFractal n copies model (Fin (l * d)) s = Some (Inr f)"
          using createFractal_total [OF m le lt kn] by blast
        then show ?thesis by (simp add: lod d(1))
      qed
    qed
    from mapCopies_all_Some
      [of copies "\<lambda>c. createFractal n copies model (num_mul lod (detailFrac c)) s", OF sub]
    obtain subs where subs:
      "list_all2 (\<lambda>c f. createFractal n copies model (num_mul lod (detailFrac c)) s = Some (Inr f))
         copies subs"
      "mapCopies (\<lambda>c. createFractal n copies model (num_mul lod (detailFrac c)) s) copies
        = Some (Inr (map2 (\<lambda>c f. transformation c f) copies subs))"
      by blast
    have "createFractal (Suc n) copies model lod s =
               Some (Inr (\<lambda>p. foldl
                   (\<lambda>acc f. 0.5 * (acc + f p - sqrt ((f p - acc) * (f p - acc) + (2 * s)\<^sup>2)))
                   (model p) (map2 (\<lambda>c f. transformation c f) copies subs)))"
      using l subs(2) by (simp add: lod sdf_union_fold)
    with subs(1) show "\<exists>subs.
           list_all2
             (\<lambda>c f. createFractal n copies model (num_mul lod (detailFrac c)) s = Some (Inr f))
             copies subs
           \<and> createFractal (Suc n) copies model lod s =
               Some (Inr (\<lambda>p. foldl
                   (\<lambda>acc f. 0.5 * (acc + f p - sqrt ((f p - acc) * (f p - acc) + (2 * s)\<^sup>2)))
                   (model p) (map2 (\<lambda>c f. transformation c f) copies subs)))"
      by blast
  qed
qed

theorem createFractal_unfold_witness:
  "num_less (Fin (1 / 2)) (Fin 1)
   \<and> createFractal (Suc 0) [\<lparr>transformation = field_translate (1, 0, 0), detailFrac = Fin (1 / 2)\<rparr>]
         createUnitSphere (Fin (1 / 2)) 0 = Some (Inr createUnitSphere)
   \<and> list_all (\<lambda>c. num_less (detailFrac c) (Fin 1))
         [\<lparr>transformation = field_translate (1, 0, 0), detailFrac = Fin (1 / 2)\<rparr>]
   \<and> \<not> (2 :: real) < 1
   \<and> (\<exists>N. \<forall>n\<ge>N. \<exists>subs.
           list_all2
             (\<lambda>c f. createFractal n [\<lparr>transformation = field_translate (1, 0, 0), detailFrac = Fin (1 / 2)\<rparr>]
                        createUnitSphere (num_mul (Fin 2) (detailFrac c)) 0 = Some (Inr f))
             [\<lparr>transformation = field_translate (1, 0, 0), detailFrac = Fin (1 / 2)\<rparr>] subs
           \<and> createFractal (Suc n) [\<lparr>transformation = field_translate (1, 0, 0), detailFrac = Fin (1 / 2)\<rparr>]
                 createUnitSphere (Fin 2) 0 =
               Some (Inr (\<lambda>p. foldl
                   (\<lambda>acc f. 0.5 * (acc + f p - sqrt ((f p - acc) * (f p - acc) + (2 * 0)\<^sup>2)))
                   (createUnitSphere p)
                   (map2 (\<lambda>c f. transformation c f)
                      [\<lparr>transformation = field_translate (1, 0, 0), detailFrac = Fin (1 / 2)\<rparr>] subs))))"
  using createFractal_unfold [where lod = "Fin (1 / 2)" and n = 0 and model = createUnitSphere
      and s = 0 and copies = "[\<lparr>transformation = field_translate (1, 0, 0), detailFrac = Fin (1 / 2)\<rparr>]"]
    createFractal_unfold [where lod = "Fin 2" and l = 2 and model = createUnitSphere
      and s = 0 and copies = "[\<lparr>transformation = field_translate (1, 0, 0), detailFrac = Fin (1 / 2)\<rparr>]"]
  by simp

text \<open>
  At \<open>lod = Infinity\<close> and at \<open>lod = NaN\<close> the comparison \<open>lod < 1\<close> is false and stays false
  after every multiplication by \<open>detailFrac = 1/2\<close>: the recursion returns at no depth,
  although the copy's \<open>detailFrac\<close> is below 1.
\<close>

lemma createFractal_PInf:
  "createFractal n [\<lparr>transformation = field_translate (1, 0, 0), detailFrac = Fin (1 / 2)\<rparr>]
     createUnitSphere PInf 0 = None"
  by (induction n) simp_all

lemma createFractal_NaN:
  "createFractal n [\<lparr>transformation = field_translate (1, 0, 0), detailFrac = Fin (1 / 2)\<rparr>]
     createUnitSphere NaN 0 = None"
  by (induction n) simp_all

theorem createFractal_nonfinite_lod_counterexample:
  "list_all (\<lambda>c. num_less (detailFrac c) (Fin 1))
     [\<lparr>transformation = field_translate (1, 0, 0), detailFrac = Fin (1 / 2)\<rparr>]
   \<and> \<not> num_less PInf (Fin 1)
   \<and> (\<forall>n. createFractal n [\<lparr>transformation = field_translate (1, 0, 0), detailFrac = Fin (1 / 2)\<rparr>]
             createUnitSphere PInf 0 = None)
   \<and> \<not> num_less NaN (Fin 1)
   \<and> (\<forall>n. createFractal n [\<lparr>transformation = field_translate (1, 0, 0), detailFrac = Fin (1 / 2)\<rparr>]
             createUnitSphere NaN 0 = None)"
  by (simp add: createFractal_PInf createFractal_NaN)

text \<open>
  Depth 3 is enough for one copy with \<open>detailFrac = 1/2\<close> at \<open>lod = 2\<close>: the fractal is the
  union of the unit spheres about \<open>(0, 0, 0)\<close>, \<open>(1, 0, 0)\<close> and \<open>(2, 0, 0)\<close>, so the point
  \<open>(2, 0, 0)\<close>, at distance 1 from the model, is inside the fractal.
\<close>

lemma createFractal_example:
  "\<exists>f. createFractal 3 [\<lparr>transformation = field_translate (1, 0, 0), detailFrac = Fin (1 / 2)\<rparr>]
                 createUnitSphere (Fin 2) 0 = Some (Inr f)
        \<and> f (2, 0, 0) = - 1 \<and> createUnitSphere (2, 0, 0) = 1"
  by (simp add: eval_nat_numeral sdf_union_def unionPair_def smoothMin_zero createUnitSphere_def
      field_translate_def)

subsection \<open>Colour merging\<close>












subsection \<open>Multisample average\<close>

lemma avgPixel_fold_split:
  "foldl (\<lambda>(color, alpha) pixel.
            (nvec3_add color (nvec3_scale (Pixel.color pixel) (Pixel.alpha pixel)),
             num_add alpha (Pixel.alpha pixel))) (c0, a0) ps
   = (foldl (\<lambda>c p. nvec3_add c (nvec3_scale (color p) (alpha p))) c0 ps,
      foldl (\<lambda>a p. num_add a (alpha p)) a0 ps)"
  by (induction ps arbitrary: c0 a0) simp_all

lemma avgPixel_formula:
  "avgPixel ps =
     \<lparr>color = nvec3_scale (foldl (\<lambda>c p. nvec3_add c (nvec3_scale (color p) (alpha p)))
                            (Fin 0, Fin 0, Fin 0) ps)
                (num_div (Fin 1) (foldl (\<lambda>a p. num_add a (alpha p)) (Fin 0) ps)),
      alpha = num_div (foldl (\<lambda>a p. num_add a (alpha p)) (Fin 0) ps) (Fin (real (length ps)))\<rparr>"
  by (simp add: avgPixel_def avgPixel_fold_split)

lemma zeroOrNaN_mul_zero: "zeroOrNaN (num_mul c (Fin 0))"
  by (cases c) simp_all

lemma zeroOrNaN_add: "zeroOrNaN x \<Longrightarrow> zeroOrNaN y \<Longrightarrow> zeroOrNaN (num_add x y)"
  by (cases x; cases y) simp_all

lemma zeroOrNaN_mul_PInf: "zeroOrNaN x \<Longrightarrow> num_mul x PInf = NaN"
  by (cases x) simp_all

lemma transparent_alpha_sum:
  "list_all (\<lambda>p. alpha p = Fin 0) ps \<Longrightarrow> foldl (\<lambda>a p. num_add a (alpha p)) (Fin 0) ps = Fin 0"
  by (induction ps) simp_all

lemma transparent_color_sum:
  "list_all (\<lambda>p. alpha p = Fin 0) ps \<Longrightarrow> zeroOrNaN a \<Longrightarrow> zeroOrNaN b \<Longrightarrow> zeroOrNaN c \<Longrightarrow>
     \<exists>x y z. foldl (\<lambda>c p. nvec3_add c (nvec3_scale (color p) (alpha p))) (a, b, c) ps = (x, y, z)
            \<and> zeroOrNaN x \<and> zeroOrNaN y \<and> zeroOrNaN z"
proof (induction ps arbitrary: a b c)
  case Nil
  then show ?case by simp
next
  case (Cons p ps)
  obtain r g bl where col: "color p = (r, g, bl)" by (cases "color p")
  from Cons.prems(1) have al: "alpha p = Fin 0" and rest: "list_all (\<lambda>p. alpha p = Fin 0) ps"
    by simp_all
  have step: "nvec3_add (a, b, c) (nvec3_scale (color p) (alpha p))
      = (num_add a (num_mul r (Fin 0)), num_add b (num_mul g (Fin 0)), num_add c (num_mul bl (Fin 0)))"
    by (simp add: col al)
  show ?case
    unfolding foldl_Cons step
    by (rule Cons.IH [OF rest]) (simp_all add: zeroOrNaN_add zeroOrNaN_mul_zero Cons.prems)
qed

lemma avgPixel_transparent:
  assumes "ps \<noteq> []" and "list_all (\<lambda>p. alpha p = Fin 0) ps"
  shows "avgPixel ps = \<lparr>color = (NaN, NaN, NaN), alpha = Fin 0\<rparr>"
proof -
  from transparent_color_sum [OF assms(2), of "Fin 0" "Fin 0" "Fin 0"]
  obtain x y z where s: "foldl (\<lambda>c p. nvec3_add c (nvec3_scale (color p) (alpha p)))
        (Fin 0, Fin 0, Fin 0) ps = (x, y, z)" "zeroOrNaN x" "zeroOrNaN y" "zeroOrNaN z"
    by auto
  show ?thesis
    using assms(1) s(2-4)
    by (simp add: avgPixel_def avgPixel_fold_split s(1) transparent_alpha_sum [OF assms(2)]
        zeroOrNaN_mul_PInf)
qed

lemma trace_far: "maxMovement < f startPos \<Longrightarrow> trace f startPos dir = None"
  by (simp add: trace_def maxIterations_def eval_nat_numeral Let_def minMovement_def maxMovement_def)

lemma getPixel_miss: "trace (sdf model) startPos dir = None \<Longrightarrow> getPixel model startPos dir lights = getTransparent"
  by (simp add: getPixel_def)

lemma getTransparent_alpha: "alpha getTransparent = Fin 0"
  by (simp add: getTransparent_def)

lemma posToPixel_all_miss:
  assumes far: "\<And>x y. 10000 < sdf model (x, y, 0)" and offs: "offsets \<noteq> []"
  shows "posToPixel orthographicRenderPixel model lights resolution offsets pos
         = \<lparr>color = (NaN, NaN, NaN), alpha = Fin 0\<rparr>"
proof -
  have miss: "orthographicRenderPixel model sc lights = getTransparent" for sc
    unfolding orthographicRenderPixel_def
    by (rule getPixel_miss, rule trace_far) (simp add: maxMovement_def far)
  show ?thesis
    unfolding posToPixel_def Let_def miss
    by (rule avgPixel_transparent) (simp_all add: offs list_all_iff getTransparent_alpha)
qed

lemma patterns_nonempty: "getMultisamplePattern1 \<noteq> []" "getMultisamplePattern8 \<noteq> []"
  by (simp_all add: getMultisamplePattern1_def getMultisamplePattern8_def)

lemma grid_create_const: "grid_create (R, C) (\<lambda>p. v) = replicate R (replicate C v)"
  by (simp add: grid_create_def map_replicate_const)

text \<open>
  C10. \<open>avgPixel\<close> multiplies the alpha-weighted colour sum by the reciprocal of the alpha
  sum and divides the alpha sum by the number of samples, without a test of the divisor.
  When every sample has alpha 0 the alpha sum is exactly 0 and the result has colour
  \<open>NaN\<close> in each channel and alpha 0. \<open>getPixel\<close> returns the transparent pixel for a ray
  that misses, so \<open>renderImage\<close> with the orthographic projection returns such pixels
  everywhere for a model that every ray misses.
\<close>

theorem avgPixel_unguarded:
  "avgPixel ps =
     \<lparr>color = nvec3_scale (foldl (\<lambda>c p. nvec3_add c (nvec3_scale (color p) (alpha p)))
                            (Fin 0, Fin 0, Fin 0) ps)
                (num_div (Fin 1) (foldl (\<lambda>a p. num_add a (alpha p)) (Fin 0) ps)),
      alpha = num_div (foldl (\<lambda>a p. num_add a (alpha p)) (Fin 0) ps) (Fin (real (length ps)))\<rparr>
   \<and> (ps \<noteq> [] \<and> list_all (\<lambda>p. alpha p = Fin 0) ps \<longrightarrow>
        foldl (\<lambda>a p. num_add a (alpha p)) (Fin 0) ps = Fin 0
        \<and> avgPixel ps = \<lparr>color = (NaN, NaN, NaN), alpha = Fin 0\<rparr>)
   \<and> (trace (sdf model) startPos dir = None \<longrightarrow>
        getPixel model startPos dir lights = getTransparent \<and> alpha getTransparent = Fin 0)
   \<and> ((\<forall>x y. 10000 < sdf model (x, y, 0)) \<and> (pattern = ''1'' \<or> pattern = ''8'') \<longrightarrow>
        renderImage orthographicRenderPixel model lights (R, C) pattern
          = Inr (replicate R (replicate C \<lparr>color = (NaN, NaN, NaN), alpha = Fin 0\<rparr>)))"
proof (intro conjI impI)
  show "avgPixel ps =
     \<lparr>color = nvec3_scale (foldl (\<lambda>c p. nvec3_add c (nvec3_scale (color p) (alpha p)))
                            (Fin 0, Fin 0, Fin 0) ps)
                (num_div (Fin 1) (foldl (\<lambda>a p. num_add a (alpha p)) (Fin 0) ps)),
      alpha = num_div (foldl (\<lambda>a p. num_add a (alpha p)) (Fin 0) ps) (Fin (real (length ps)))\<rparr>"
    by (rule avgPixel_formula)
next
  assume "ps \<noteq> [] \<and> list_all (\<lambda>p. alpha p = Fin 0) ps"
  then show "foldl (\<lambda>a p. num_add a (alpha p)) (Fin 0) ps = Fin 0"
    using transparent_alpha_sum by blast
next
  assume "ps \<noteq> [] \<and> list_all (\<lambda>p. alpha p = Fin 0) ps"
  then show "avgPixel ps = \<lparr>color = (NaN, NaN, NaN), alpha = Fin 0\<rparr>"
    using avgPixel_transparent by blast
next
  assume "trace (sdf model) startPos dir = None"
  then show "getPixel model startPos dir lights = getTransparent"
    by (rule getPixel_miss)
next
  show "alpha getTransparent = Fin 0"
    by (rule getTransparent_alpha)
next
  assume a: "(\<forall>x y. 10000 < sdf model (x, y, 0)) \<and> (pattern = ''1'' \<or> pattern = ''8'')"
  then have far: "\<And>x y. 10000 < sdf model (x, y, 0)" by blast
  from a obtain offsets where offs: "getMultisamplePattern pattern = Inr offsets" "offsets \<noteq> []"
    by (auto simp: getMultisamplePattern_def patterns_nonempty)
  have "posToPixel orthographicRenderPixel model (normalizeLights lights) (R, C) offsets
        = (\<lambda>p. \<lparr>color = (NaN, NaN, NaN), alpha = Fin 0\<rparr>)"
    by (rule ext) (rule posToPixel_all_miss [OF far offs(2)])
  then show "renderImage orthographicRenderPixel model lights (R, C) pattern
          = Inr (replicate R (replicate C \<lparr>color = (NaN, NaN, NaN), alpha = Fin 0\<rparr>))"
    by (simp add: renderImage_def offs(1) grid_create_const)
qed

theorem avgPixel_unguarded_witness:
  "[getTransparent] \<noteq> [] \<and> list_all (\<lambda>p. alpha p = Fin 0) [getTransparent]
   \<and> avgPixel [getTransparent] = \<lparr>color = (NaN, NaN, NaN), alpha = Fin 0\<rparr>
   \<and> trace (sdf \<lparr>sdf = (\<lambda>p. 20000), colorField = (\<lambda>p. (1, 1, 1))\<rparr>) (0, 0, 0) (0, 0, - 1) = None
   \<and> getPixel \<lparr>sdf = (\<lambda>p. 20000), colorField = (\<lambda>p. (1, 1, 1))\<rparr> (0, 0, 0) (0, 0, - 1) []
       = getTransparent
   \<and> (\<forall>x y. 10000 < sdf \<lparr>sdf = (\<lambda>p. 20000), colorField = (\<lambda>p. (1, 1, 1))\<rparr> (x, y, 0))
   \<and> renderImage orthographicRenderPixel \<lparr>sdf = (\<lambda>p. 20000), colorField = (\<lambda>p. (1, 1, 1))\<rparr>
        [] (2, 2) ''1''
       = Inr [[\<lparr>color = (NaN, NaN, NaN), alpha = Fin 0\<rparr>, \<lparr>color = (NaN, NaN, NaN), alpha = Fin 0\<rparr>],
              [\<lparr>color = (NaN, NaN, NaN), alpha = Fin 0\<rparr>, \<lparr>color = (NaN, NaN, NaN), alpha = Fin 0\<rparr>]]"
  using avgPixel_unguarded [of "[getTransparent]"
      "\<lparr>sdf = (\<lambda>p. 20000), colorField = (\<lambda>p. (1, 1, 1))\<rparr>" "(0, 0, 0)" "(0, 0, - 1)" "[]" "''1''" 2 2]
    trace_far [of "\<lambda>p. 20000" "(0, 0, 0)" "(0, 0, - 1)"]
  by (simp add: getTransparent_def maxMovement_def eval_nat_numeral)

subsection \<open>Progressive renderer\<close>

lemma init_1x1:
  "renderPartialImage renderPixel model lights (1, 1) ''1'' =
     Inr (\<lparr>pixels = [[getTransparent]], posArray = [(0, 0)],
           distToNearestRenderedPixel = [[\<lparr>cell_pixel = getTransparent, cell_dist = PInf\<rparr>]]\<rparr>,
          posToPixel renderPixel model (normalizeLights lights) (1, 1) getMultisamplePattern1)"
  by (simp add: renderPartialImage_def getMultisamplePattern_def grid_create_def Let_def)

lemma getColorDiff_1x1: "getColorDiff [[c]] (0, 0) = Inl TypeError"
  by (simp add: getColorDiff_def gridEdges_def grid_getCell_def List.map_filter_simps)

lemma step_1x1:
  "step toPixel fuel (replicate 32 0)
     \<lparr>pixels = [[getTransparent]], posArray = [(0, 0)],
      distToNearestRenderedPixel = [[\<lparr>cell_pixel = getTransparent, cell_dist = PInf\<rparr>]]\<rparr>
   = Some (Inl TypeError)"
  by (simp add: step_def popMax_def eval_nat_numeral get_def getScore_def getColorDiff_1x1)

lemma init_1x3:
  "renderPartialImage stripes model lights (1, 3) ''1'' =
     Inr (\<lparr>pixels = [[getTransparent, getTransparent, getTransparent]],
           posArray = [(0, 0), (0, 1), (0, 2)],
           distToNearestRenderedPixel =
             [[\<lparr>cell_pixel = getTransparent, cell_dist = PInf\<rparr>,
               \<lparr>cell_pixel = getTransparent, cell_dist = PInf\<rparr>,
               \<lparr>cell_pixel = getTransparent, cell_dist = PInf\<rparr>]]\<rparr>,
          posToPixel stripes model (normalizeLights lights) (1, 3) getMultisamplePattern1)"
  by (simp add: renderPartialImage_def getMultisamplePattern_def grid_create_def Let_def upt_conv_Cons)

lemma toPixel_1x3:
  "posToPixel stripes model ls (1, 3) getMultisamplePattern1 (0, j)
   = \<lparr>color = (Fin ((real_of_int j - 1) / 3), Fin 0, Fin 0), alpha = Fin 1\<rparr>"
  by (simp add: posToPixel_def stripes_def getMultisamplePattern1_def avgPixel_def
      pixelCoordsToScreenCoords_def vec2_of_def field_simps)

lemmas step_eval = step_def popMax_def eval_nat_numeral get_def getScore_def getColorDiff_def
      gridEdges_def grid_getCell_def getTransparent_def num_sub_def
      splice1_def updateDists_def relaxNeighbors_def grid_setCell_def gridNeighbors_def vec2_of_def
      Let_def grid_cells_def upt_conv_Cons

lemma step1_1x3:
  assumes "toPixel (0, 0) = \<lparr>color = (Fin (- 1 / 3), Fin 0, Fin 0), alpha = Fin 1\<rparr>"
  shows "step toPixel 8 (replicate 32 0)
     \<lparr>pixels = [[getTransparent, getTransparent, getTransparent]],
           posArray = [(0, 0), (0, 1), (0, 2)],
           distToNearestRenderedPixel =
             [[\<lparr>cell_pixel = getTransparent, cell_dist = PInf\<rparr>,
               \<lparr>cell_pixel = getTransparent, cell_dist = PInf\<rparr>,
               \<lparr>cell_pixel = getTransparent, cell_dist = PInf\<rparr>]]\<rparr>
   = Some (Inr (True,
       \<lparr>pixels = [[\<lparr>color = (Fin (- 1 / 3), Fin 0, Fin 0), alpha = Fin 1\<rparr>,
                   \<lparr>color = (Fin (- 1 / 3), Fin 0, Fin 0), alpha = Fin 1\<rparr>,
                   \<lparr>color = (Fin (- 1 / 3), Fin 0, Fin 0), alpha = Fin 1\<rparr>]],
        posArray = [(0, 1), (0, 2)],
        distToNearestRenderedPixel =
          [[\<lparr>cell_pixel = \<lparr>color = (Fin (- 1 / 3), Fin 0, Fin 0), alpha = Fin 1\<rparr>, cell_dist = Fin 0\<rparr>,
            \<lparr>cell_pixel = \<lparr>color = (Fin (- 1 / 3), Fin 0, Fin 0), alpha = Fin 1\<rparr>, cell_dist = Fin 1\<rparr>,
            \<lparr>cell_pixel = \<lparr>color = (Fin (- 1 / 3), Fin 0, Fin 0), alpha = Fin 1\<rparr>, cell_dist = Fin 2\<rparr>]]\<rparr>))"
  using assms by (simp add: step_eval)

lemma step2_1x3:
  assumes "toPixel (0, 1) = \<lparr>color = (Fin 0, Fin 0, Fin 0), alpha = Fin 1\<rparr>"
  shows "step toPixel 8 (replicate 32 0)
       \<lparr>pixels = [[\<lparr>color = (Fin (- 1 / 3), Fin 0, Fin 0), alpha = Fin 1\<rparr>,
                   \<lparr>color = (Fin (- 1 / 3), Fin 0, Fin 0), alpha = Fin 1\<rparr>,
                   \<lparr>color = (Fin (- 1 / 3), Fin 0, Fin 0), alpha = Fin 1\<rparr>]],
        posArray = [(0, 1), (0, 2)],
        distToNearestRenderedPixel =
          [[\<lparr>cell_pixel = \<lparr>color = (Fin (- 1 / 3), Fin 0, Fin 0), alpha = Fin 1\<rparr>, cell_dist = Fin 0\<rparr>,
            \<lparr>cell_pixel = \<lparr>color = (Fin (- 1 / 3), Fin 0, Fin 0), alpha = Fin 1\<rparr>, cell_dist = Fin 1\<rparr>,
            \<lparr>cell_pixel = \<lparr>color = (Fin (- 1 / 3), Fin 0, Fin 0), alpha = Fin 1\<rparr>, cell_dist = Fin 2\<rparr>]]\<rparr>
   = Some (Inr (True,
       \<lparr>pixels = [[\<lparr>color = (Fin (- 1 / 3), Fin 0, Fin 0), alpha = Fin 1\<rparr>,
                   \<lparr>color = (Fin 0, Fin 0, Fin 0), alpha = Fin 1\<rparr>,
                   \<lparr>color = (Fin (- 1 / 3), Fin 0, Fin 0), alpha = Fin 1\<rparr>]],
        posArray = [(0, 2)],
        distToNearestRenderedPixel =
          [[\<lparr>cell_pixel = \<lparr>color = (Fin (- 1 / 3), Fin 0, Fin 0), alpha = Fin 1\<rparr>, cell_dist = Fin 0\<rparr>,
            \<lparr>cell_pixel = \<lparr>color = (Fin 0, Fin 0, Fin 0), alpha = Fin 1\<rparr>, cell_dist = Fin 0\<rparr>,
            \<lparr>cell_pixel = \<lparr>color = (Fin (- 1 / 3), Fin 0, Fin 0), alpha = Fin 1\<rparr>, cell_dist = Fin 2\<rparr>]]\<rparr>))"
  using assms by (simp add: step_eval)

lemma init_1x1_8:
  "renderPartialImage renderPixel model lights (1, 1) ''8'' =
     Inr (\<lparr>pixels = [[getTransparent]], posArray = [(0, 0)],
           distToNearestRenderedPixel = [[\<lparr>cell_pixel = getTransparent, cell_dist = PInf\<rparr>]]\<rparr>,
          posToPixel renderPixel model (normalizeLights lights) (1, 1) getMultisamplePattern8)"
  by (simp add: renderPartialImage_def getMultisamplePattern_def grid_create_def Let_def)

text \<open>
  C1. On a 1 x 1 grid the worklist holds one coordinate, and the first call of \<open>step\<close>
  throws a \<open>TypeError\<close> instead of returning true: the only candidate has no edge
  neighbour inside the grid, and \<open>getColorDiff\<close> reduces the empty list of neighbour
  colours without an initial value. The 32 draws of \<open>randomInt(0, 0)\<close> are all 0.
\<close>

theorem step_throws_on_1x1:
  "(\<exists>st toPixel. renderPartialImage renderPixel model lights (1, 1) ''1'' = Inr (st, toPixel)
      \<and> posArray st = [(0, 0)]
      \<and> step toPixel fuel (replicate 32 0) st = Some (Inl TypeError))
   \<and> (\<exists>st toPixel. renderPartialImage renderPixel model lights (1, 1) ''8'' = Inr (st, toPixel)
      \<and> posArray st = [(0, 0)]
      \<and> step toPixel fuel (replicate 32 0) st = Some (Inl TypeError))"
  unfolding init_1x1 init_1x1_8
  by (simp add: step_1x1)

text \<open>
  C2. On a 1 x 3 grid, two calls of \<open>step\<close> whose draws are all 0 render (0, 0) and then
  (0, 1). After the second call the cell (0, 2) still records the pixel of (0, 0) at
  distance 2, although the rendered cell (0, 1) is its neighbour at distance 1 and has
  another colour: the relaxation from (0, 1) enqueues no neighbour, because the guard
  compares the distance the overwritten cell held before with the candidate distance.
\<close>

theorem progressive_distance_not_nearest:
  "\<exists>st0 toPixel st1 st2.
      renderPartialImage stripes model lights (1, 3) ''1'' = Inr (st0, toPixel)
    \<and> step toPixel 8 (replicate 32 0) st0 = Some (Inr (True, st1))
    \<and> step toPixel 8 (replicate 32 0) st1 = Some (Inr (True, st2))
    \<and> posArray st0 = [(0, 0), (0, 1), (0, 2)]
    \<and> posArray st2 = [(0, 2)]
    \<and> grid_getCell (distToNearestRenderedPixel st2) (0, 1)
        = Some \<lparr>cell_pixel = toPixel (0, 1), cell_dist = Fin 0\<rparr>
    \<and> grid_getCell (distToNearestRenderedPixel st2) (0, 2)
        = Some \<lparr>cell_pixel = toPixel (0, 0), cell_dist = Fin 2\<rparr>
    \<and> color (toPixel (0, 0)) = (Fin (- 1 / 3), Fin 0, Fin 0)
    \<and> color (toPixel (0, 1)) = (Fin 0, Fin 0, Fin 0)"
proof -
  let ?T = "posToPixel stripes model (normalizeLights lights) (1, 3) getMultisamplePattern1"
  have a: "?T (0, 0) = \<lparr>color = (Fin (- 1 / 3), Fin 0, Fin 0), alpha = Fin 1\<rparr>"
    using toPixel_1x3 [of model "normalizeLights lights" 0] by simp
  have b: "?T (0, 1) = \<lparr>color = (Fin 0, Fin 0, Fin 0), alpha = Fin 1\<rparr>"
    using toPixel_1x3 [of model "normalizeLights lights" 1] by simp
  note s1 = step1_1x3 [of ?T, OF a] and s2 = step2_1x3 [of ?T, OF b]
  show ?thesis
    unfolding init_1x3
    apply (intro exI conjI)
            apply (rule refl)
           apply (rule s1)
          apply (rule s2)
         apply (simp_all add: grid_getCell_def a b del: One_nat_def)
    done
qed

text \<open>
  The guard in general: when the distance the overwritten cell held before is at most the
  new distance plus 1, no neighbour is enqueued. A pixel rendered on a cell whose estimate
  was at most 1 therefore changes that cell only.
\<close>

lemma neighbour_edge_ge_one:
  "(p, n) \<in> set (gridNeighbors pos) \<Longrightarrow> 1 \<le> vec2_length (vec2_of n)"
  by (auto simp: gridNeighbors_def vec2_of_def)

lemma relaxNeighbors_blocked:
  assumes "cell_dist cell = Fin y" and "q_dist next = Fin x" and "y \<le> x + 1"
  shows "relaxNeighbors dists' cell next = []"
proof -
  have "(case grid_getCell dists' p of
           None \<Rightarrow> []
         | Some c \<Rightarrow>
             let d = num_add (q_dist next) (Fin (vec2_length (vec2_of n)))
             in if num_le (cell_dist cell) d then []
                else [\<lparr>q_pixel = q_pixel next, q_pos = p, q_dist = d\<rparr>]) = []"
    if "(p, n) \<in> set (gridNeighbors (q_pos next))" for p n
  proof -
    from that have "1 \<le> vec2_length (vec2_of n)"
      by (rule neighbour_edge_ge_one)
    with assms show ?thesis
      by (simp add: Let_def split: option.splits)
  qed
  then show ?thesis
    unfolding relaxNeighbors_def by auto
qed

lemma updateDists_no_propagation:
  assumes cell: "grid_getCell dists pos = Some cell"
    and old: "cell_dist cell = Fin y" "0 < y" "y \<le> 1"
  shows "updateDists (Suc (Suc fuel)) dists pixel pos
         = Some (grid_setCell dists pos \<lparr>cell_pixel = pixel, cell_dist = Fin 0\<rparr>)"
proof -
  have "relaxNeighbors (grid_setCell dists pos \<lparr>cell_pixel = pixel, cell_dist = Fin 0\<rparr>) cell
          \<lparr>q_pixel = pixel, q_pos = pos, q_dist = Fin 0\<rparr> = []"
    by (rule relaxNeighbors_blocked [where y = y and x = 0]) (simp_all add: old)
  then show ?thesis
    using cell old by (simp add: updateDists_def Let_def)
qed

text \<open>The same two relaxations, on \<open>updateDists\<close> alone.\<close>

lemma grid_1x3:
  "grid_create (1, 3) (\<lambda>p. \<lparr>cell_pixel = getTransparent, cell_dist = PInf\<rparr>)
   = [[\<lparr>cell_pixel = getTransparent, cell_dist = PInf\<rparr>,
       \<lparr>cell_pixel = getTransparent, cell_dist = PInf\<rparr>,
       \<lparr>cell_pixel = getTransparent, cell_dist = PInf\<rparr>]]"
  by (simp add: grid_create_def upt_conv_Cons)

lemma first_1x3:
  "updateDists 8 [[\<lparr>cell_pixel = getTransparent, cell_dist = PInf\<rparr>,
       \<lparr>cell_pixel = getTransparent, cell_dist = PInf\<rparr>,
       \<lparr>cell_pixel = getTransparent, cell_dist = PInf\<rparr>]] pixelA (0, 0)
   = Some [[\<lparr>cell_pixel = pixelA, cell_dist = Fin 0\<rparr>,
            \<lparr>cell_pixel = pixelA, cell_dist = Fin 1\<rparr>,
            \<lparr>cell_pixel = pixelA, cell_dist = Fin 2\<rparr>]]"
  by (simp add: updateDists_def relaxNeighbors_def eval_nat_numeral grid_getCell_def
      grid_setCell_def gridNeighbors_def vec2_of_def Let_def)

lemma second_1x3:
  "updateDists 8 [[\<lparr>cell_pixel = pixelA, cell_dist = Fin 0\<rparr>,
            \<lparr>cell_pixel = pixelA, cell_dist = Fin 1\<rparr>,
            \<lparr>cell_pixel = pixelA, cell_dist = Fin 2\<rparr>]] pixelB (0, 1)
   = Some [[\<lparr>cell_pixel = pixelA, cell_dist = Fin 0\<rparr>,
            \<lparr>cell_pixel = pixelB, cell_dist = Fin 0\<rparr>,
            \<lparr>cell_pixel = pixelA, cell_dist = Fin 2\<rparr>]]"
  by (simp add: updateDists_def relaxNeighbors_def eval_nat_numeral grid_getCell_def
      grid_setCell_def gridNeighbors_def vec2_of_def Let_def)

text \<open>
  What a call of \<open>step\<close> that returns does to the worklist: it returns false exactly on the
  empty worklist and leaves the state as it is; when it returns true it has removed one
  position of the worklist and relaxed the distances from that position.
\<close>

lemma splice1_removes_one:
  assumes "splice1 array start = (Some x, array')"
  shows "\<exists>k<length array. x = array ! k \<and> array' = take k array @ drop (Suc k) array"
proof -
  let ?len = "int (length array)"
  let ?s = "if start < 0 then max (?len + start) 0 else min start ?len"
  from assms have lt: "?s < ?len"
    by (auto simp: splice1_def Let_def split: if_splits)
  have ge: "0 \<le> ?s" by auto
  from assms lt have "x = array ! nat ?s" "array' = take (nat ?s) array @ drop (Suc (nat ?s)) array"
    by (simp_all add: splice1_def Let_def)
  moreover have "nat ?s < length array"
    using lt ge by linarith
  ultimately show ?thesis by blast
qed

lemma splice1_None: "splice1 array start = (None, array') \<Longrightarrow> array' = array"
  by (auto simp: splice1_def Let_def split: if_splits)

lemma popMax_scan_index:
  "popMax_scan array scoreOf indices (maxScore, maxIndex) = Inr (s, k) \<Longrightarrow>
     k = maxIndex \<or> (0 \<le> k \<and> k < int (length array))"
proof (induction indices arbitrary: maxScore maxIndex)
  case Nil
  then show ?case by simp
next
  case (Cons i indices)
  from Cons.prems obtain obj score where obj: "get array i = Inr obj" and sc: "scoreOf obj = Inr score"
    by (auto split: sum.splits)
  have i: "0 \<le> i \<and> i < int (length array)"
    using obj by (auto simp: get_def split: if_splits)
  show ?case
  proof (cases "num_le score maxScore")
    case True
    with Cons.prems obj sc have "popMax_scan array scoreOf indices (maxScore, maxIndex) = Inr (s, k)"
      by simp
    then show ?thesis by (rule Cons.IH)
  next
    case False
    with Cons.prems obj sc have "popMax_scan array scoreOf indices (score, i) = Inr (s, k)"
      by simp
    from Cons.IH [OF this] i show ?thesis by auto
  qed
qed

lemma popMax_removes_one:
  assumes "popMax array scoreOf indices = Inr (r, array')"
  shows "(array = [] \<and> r = None \<and> array' = [])
       \<or> (\<exists>k<length array. r = Some (array ! k) \<and> array' = take k array @ drop (Suc k) array)"
proof (cases "array = []")
  case True
  with assms show ?thesis by (simp add: popMax_def)
next
  case False
  with assms obtain s k where scan: "popMax_scan array scoreOf indices (NInf, - 1) = Inr (s, k)"
    and sp: "splice1 array k = (r, array')"
    by (auto simp: popMax_def split: sum.splits prod.splits)
  from popMax_scan_index [OF scan] have k: "k = - 1 \<or> (0 \<le> k \<and> k < int (length array))" .
  have "\<exists>x. r = Some x"
  proof (cases r)
    case None
    with sp k False show ?thesis
      by (auto simp: splice1_def Let_def split: if_splits)
  qed simp
  then obtain x where "r = Some x" ..
  with splice1_removes_one [of array k x array'] sp show ?thesis by auto
qed

lemma step_worklist:
  assumes "step toPixel fuel indices st = Some (Inr (b, st'))"
  shows "(\<not> b \<and> posArray st = [] \<and> st' = st)
       \<or> (b \<and> (\<exists>k<length (posArray st).
                 posArray st' = take k (posArray st) @ drop (Suc k) (posArray st)
                 \<and> updateDists fuel (distToNearestRenderedPixel st) (toPixel (posArray st ! k))
                      (posArray st ! k) = Some (distToNearestRenderedPixel st')))"
proof -
  from assms obtain r arr where pm:
    "popMax (posArray st) (getScore (distToNearestRenderedPixel st)) indices = Inr (r, arr)"
    by (auto simp: step_def split: sum.splits prod.splits)
  from popMax_removes_one [OF pm] show ?thesis
  proof
    assume e: "posArray st = [] \<and> r = None \<and> arr = []"
    then have eq: "st\<lparr>posArray := []\<rparr> = st" by (cases st) simp
    from e assms pm have "\<not> b" and "st' = st\<lparr>posArray := []\<rparr>"
      by (auto simp: step_def)
    with eq e show ?thesis by metis
  next
    assume "\<exists>k<length (posArray st). r = Some (posArray st ! k)
              \<and> arr = take k (posArray st) @ drop (Suc k) (posArray st)"
    then obtain k where k: "k < length (posArray st)" "r = Some (posArray st ! k)"
      "arr = take k (posArray st) @ drop (Suc k) (posArray st)" by blast
    with assms pm show ?thesis
      by (auto simp: step_def split: option.splits)
  qed
qed

text \<open>
  The worklist starts with the R * C positions of the grid, each once; a call that returns
  keeps it free of repetitions and inside the worklist it started from, and shortens it by
  one exactly when it returns true.
\<close>

lemma worklist_distinct:
  "distinct (concat (map (\<lambda>i. map (\<lambda>j. (int i, int j)) [0..<C]) [0..<R]))
   \<and> length (concat (map (\<lambda>i. map (\<lambda>j. (int i, int j)) [0..<C]) [0..<R])) = R * C
   \<and> fst ` set (concat (map (\<lambda>i. map (\<lambda>j. (int i, int j)) [0..<C]) [0..<R])) \<subseteq> {..<int R}"
proof (induction R)
  case 0
  show ?case by simp
next
  case (Suc R)
  let ?prev = "concat (map (\<lambda>i. map (\<lambda>j. (int i, int j)) [0..<C]) [0..<R])"
  let ?row = "map (\<lambda>j. (int R, int j)) [0..<C]"
  have unfold: "concat (map (\<lambda>i. map (\<lambda>j. (int i, int j)) [0..<C]) [0..<Suc R]) = ?prev @ ?row"
    by simp
  have row: "distinct ?row"
    by (simp add: distinct_map inj_on_def)
  have rowfst: "fst ` set ?row \<subseteq> {int R}"
    by auto
  have disj: "set ?prev \<inter> set ?row = {}"
  proof (rule ccontr)
    assume "set ?prev \<inter> set ?row \<noteq> {}"
    then obtain p where p: "p \<in> set ?prev" "p \<in> set ?row" by blast
    from p(1) Suc.IH have "fst p < int R" by blast
    moreover from p(2) rowfst have "fst p = int R" by blast
    ultimately show False by simp
  qed
  have "distinct (?prev @ ?row)"
    using Suc.IH row disj by simp
  moreover have "length (?prev @ ?row) = Suc R * C"
    using Suc.IH by simp
  moreover have "fst ` set (?prev @ ?row) \<subseteq> {..<int (Suc R)}"
  proof -
    have "fst ` set ?prev \<subseteq> {..<int (Suc R)}" using Suc.IH by fastforce
    moreover have "fst ` set ?row \<subseteq> {..<int (Suc R)}" using rowfst by fastforce
    ultimately show ?thesis by (simp add: image_Un)
  qed
  ultimately show ?case unfolding unfold by blast
qed

lemma init_worklist:
  assumes "renderPartialImage renderPixel model lights (R, C) pattern = Inr (st, toPixel)"
  shows "distinct (posArray st) \<and> length (posArray st) = R * C"
proof -
  have rows: "map (\<lambda>i. map (\<lambda>j. (int i, int j))
                 [0..<length (grid_create (R, C) (\<lambda>p. getTransparent) ! i)]) [0..<R]
            = map (\<lambda>i. map (\<lambda>j. (int i, int j)) [0..<C]) [0..<R]"
    by (rule map_cong) (simp_all add: grid_create_def)
  have len: "length (grid_create (R, C) (\<lambda>p. getTransparent)) = R"
    by (simp add: grid_create_def)
  from assms have "posArray st = concat (map (\<lambda>i. map (\<lambda>j. (int i, int j)) [0..<C]) [0..<R])"
    by (auto simp: renderPartialImage_def Let_def len rows split: sum.splits)
  then show ?thesis
    using worklist_distinct [of C R] by simp
qed

lemma step_worklist_distinct:
  assumes "step toPixel fuel indices st = Some (Inr (b, st'))" and "distinct (posArray st)"
  shows "distinct (posArray st')
       \<and> length (posArray st') = length (posArray st) - (if b then 1 else 0)
       \<and> set (posArray st') \<subseteq> set (posArray st)"
proof -
  from step_worklist [OF assms(1)] show ?thesis
  proof
    assume "\<not> b \<and> posArray st = [] \<and> st' = st"
    then show ?thesis by simp
  next
    assume "b \<and> (\<exists>k<length (posArray st).
                 posArray st' = take k (posArray st) @ drop (Suc k) (posArray st)
                 \<and> updateDists fuel (distToNearestRenderedPixel st) (toPixel (posArray st ! k))
                      (posArray st ! k) = Some (distToNearestRenderedPixel st'))"
    then obtain k where b: b and k: "k < length (posArray st)"
      and eq: "posArray st' = take k (posArray st) @ drop (Suc k) (posArray st)"
      by blast
    have "distinct (take k (posArray st) @ drop (Suc k) (posArray st))"
      using assms(2) set_take_disj_set_drop_if_distinct [of "posArray st" k "Suc k"]
      by simp
    moreover have "length (take k (posArray st) @ drop (Suc k) (posArray st)) = length (posArray st) - 1"
      using k by simp
    moreover have "set (take k (posArray st) @ drop (Suc k) (posArray st)) \<subseteq> set (posArray st)"
      by (auto dest: in_set_takeD in_set_dropD)
    ultimately show ?thesis using b eq by simp
  qed
qed

text \<open>
  A complete run on the 1 x 3 grid with the same draws: three calls return true, the
  fourth returns false, and the pixel grid is then the grid \<open>renderImage\<close> returns.
\<close>

lemma step3_1x3:
  assumes "toPixel (0, 2) = \<lparr>color = (Fin (1 / 3), Fin 0, Fin 0), alpha = Fin 1\<rparr>"
  shows "step toPixel 8 (replicate 32 0)
       \<lparr>pixels = [[\<lparr>color = (Fin (- 1 / 3), Fin 0, Fin 0), alpha = Fin 1\<rparr>,
                   \<lparr>color = (Fin 0, Fin 0, Fin 0), alpha = Fin 1\<rparr>,
                   \<lparr>color = (Fin (- 1 / 3), Fin 0, Fin 0), alpha = Fin 1\<rparr>]],
        posArray = [(0, 2)],
        distToNearestRenderedPixel =
          [[\<lparr>cell_pixel = \<lparr>color = (Fin (- 1 / 3), Fin 0, Fin 0), alpha = Fin 1\<rparr>, cell_dist = Fin 0\<rparr>,
            \<lparr>cell_pixel = \<lparr>color = (Fin 0, Fin 0, Fin 0), alpha = Fin 1\<rparr>, cell_dist = Fin 0\<rparr>,
            \<lparr>cell_pixel = \<lparr>color = (Fin (- 1 / 3), Fin 0, Fin 0), alpha = Fin 1\<rparr>, cell_dist = Fin 2\<rparr>]]\<rparr>
   = Some (Inr (True,
       \<lparr>pixels = [[\<lparr>color = (Fin (- 1 / 3), Fin 0, Fin 0), alpha = Fin 1\<rparr>,
                   \<lparr>color = (Fin 0, Fin 0, Fin 0), alpha = Fin 1\<rparr>,
                   \<lparr>color = (Fin (1 / 3), Fin 0, Fin 0), alpha = Fin 1\<rparr>]],
        posArray = [],
        distToNearestRenderedPixel =
          [[\<lparr>cell_pixel = \<lparr>color = (Fin (- 1 / 3), Fin 0, Fin 0), alpha = Fin 1\<rparr>, cell_dist = Fin 0\<rparr>,
            \<lparr>cell_pixel = \<lparr>color = (Fin 0, Fin 0, Fin 0), alpha = Fin 1\<rparr>, cell_dist = Fin 0\<rparr>,
            \<lparr>cell_pixel = \<lparr>color = (Fin (1 / 3), Fin 0, Fin 0), alpha = Fin 1\<rparr>, cell_dist = Fin 0\<rparr>]]\<rparr>))"
  using assms by (simp add: step_eval)

lemma step_empty_worklist:
  "posArray st = [] \<Longrightarrow> step toPixel fuel indices st = Some (Inr (False, st))"
  by (cases st) (simp add: step_def popMax_def)

lemma renderImage_1x3:
  "renderImage stripes model lights (1, 3) ''1''
   = Inr [[\<lparr>color = (Fin (- 1 / 3), Fin 0, Fin 0), alpha = Fin 1\<rparr>,
           \<lparr>color = (Fin 0, Fin 0, Fin 0), alpha = Fin 1\<rparr>,
           \<lparr>color = (Fin (1 / 3), Fin 0, Fin 0), alpha = Fin 1\<rparr>]]"
proof -
  have "grid_create (1, 3) (posToPixel stripes model (normalizeLights lights) (1, 3) getMultisamplePattern1)
      = [[posToPixel stripes model (normalizeLights lights) (1, 3) getMultisamplePattern1 (0, 0),
          posToPixel stripes model (normalizeLights lights) (1, 3) getMultisamplePattern1 (0, 1),
          posToPixel stripes model (normalizeLights lights) (1, 3) getMultisamplePattern1 (0, 2)]]"
    by (simp add: grid_create_def upt_conv_Cons del: One_nat_def)
  then show ?thesis
    unfolding renderImage_def Let_def getMultisamplePattern_def toPixel_1x3
    by simp
qed

lemma progressive_1x3_completes:
  "\<exists>st0 toPixel st1 st2 st3.
      renderPartialImage stripes model lights (1, 3) ''1'' = Inr (st0, toPixel)
    \<and> step toPixel 8 (replicate 32 0) st0 = Some (Inr (True, st1))
    \<and> step toPixel 8 (replicate 32 0) st1 = Some (Inr (True, st2))
    \<and> step toPixel 8 (replicate 32 0) st2 = Some (Inr (True, st3))
    \<and> step toPixel 8 (replicate 32 0) st3 = Some (Inr (False, st3))
    \<and> renderImage stripes model lights (1, 3) ''1'' = Inr (pixels st3)"
proof -
  let ?T = "posToPixel stripes model (normalizeLights lights) (1, 3) getMultisamplePattern1"
  have a: "?T (0, 0) = \<lparr>color = (Fin (- 1 / 3), Fin 0, Fin 0), alpha = Fin 1\<rparr>"
    using toPixel_1x3 [of model "normalizeLights lights" 0] by simp
  have b: "?T (0, 1) = \<lparr>color = (Fin 0, Fin 0, Fin 0), alpha = Fin 1\<rparr>"
    using toPixel_1x3 [of model "normalizeLights lights" 1] by simp
  have c: "?T (0, 2) = \<lparr>color = (Fin (1 / 3), Fin 0, Fin 0), alpha = Fin 1\<rparr>"
    using toPixel_1x3 [of model "normalizeLights lights" 2] by simp
  note s1 = step1_1x3 [of ?T, OF a] and s2 = step2_1x3 [of ?T, OF b] and s3 = step3_1x3 [of ?T, OF c]
  show ?thesis
    unfolding init_1x3 renderImage_1x3
    apply (intro exI conjI)
         apply (rule refl)
        apply (rule s1)
       apply (rule s2)
      apply (rule s3)
     apply (rule step_empty_worklist)
     apply simp_all
    done
qed

end
